(* ===== verification/Prelude.thy ===== *)
theory Prelude
  imports Main
begin

text \<open>
  Shared vocabulary of the development. The program is TypeScript running on
  Node.js; its data are JavaScript objects used as dictionaries
  (\<open>Record<string, ...>\<close>, \<open>Record<number, ...>\<close>), built by object literals and
  object spread (\<open>{...a, k: v}\<close>) and read by property access, \<open>Object.keys\<close>
  and \<open>Object.values\<close>. An object is modelled as an association list in
  property-creation order: assigning an existing key replaces its value in
  place, a new key is appended. This theory defines that object model and the
  lemmas on it that every component uses (the collection \<open>obj_simps\<close>).
\<close>

named_theorems obj_simps "lemmas on the JavaScript object model"

type_synonym ('k, 'v) js_obj = "('k \<times> 'v) list"

type_synonym address = string
type_synonym url = string

subsection \<open>Operations\<close>

text \<open>\<open>ob[k] = v\<close>: replace the value of an existing property where it is, else append.\<close>

fun obj_set :: "('k, 'v) js_obj \<Rightarrow> 'k \<Rightarrow> 'v \<Rightarrow> ('k, 'v) js_obj" where
  "obj_set [] k v = [(k, v)]"
| "obj_set ((k', v') # ps) k v =
     (if k' = k then (k, v) # ps else (k', v') # obj_set ps k v)"

text \<open>\<open>{...ob, ...ps}\<close>: the properties of \<open>ps\<close> assigned in order onto a copy of \<open>ob\<close>.\<close>

definition obj_spread :: "('k, 'v) js_obj \<Rightarrow> ('k \<times> 'v) list \<Rightarrow> ('k, 'v) js_obj" where
  "obj_spread ob ps = foldl (\<lambda>acc (k, v). obj_set acc k v) ob ps"

text \<open>An object literal \<open>{k1: v1, k2: v2, ...}\<close> (a later duplicate key overwrites).\<close>

definition obj_literal :: "('k \<times> 'v) list \<Rightarrow> ('k, 'v) js_obj" where
  "obj_literal ps = obj_spread [] ps"

definition obj_get :: "('k, 'v) js_obj \<Rightarrow> 'k \<Rightarrow> 'v option" where
  "obj_get ob k = map_of ob k"

definition obj_keys :: "('k, 'v) js_obj \<Rightarrow> 'k list" where
  "obj_keys ob = map fst ob"

definition obj_values :: "('k, 'v) js_obj \<Rightarrow> 'v list" where
  "obj_values ob = map snd ob"

text \<open>An object never holds a key twice.\<close>

definition obj_wf :: "('k, 'v) js_obj \<Rightarrow> bool" where
  "obj_wf ob \<longleftrightarrow> distinct (obj_keys ob)"

subsection \<open>Lemmas\<close>

lemma obj_get_obj_set [obj_simps, simp]:
  "obj_get (obj_set ob k v) = (obj_get ob)(k \<mapsto> v)"
  by (induction ob) (auto simp: obj_get_def)

lemma obj_keys_obj_set [obj_simps]:
  "obj_keys (obj_set ob k v) =
     (if k \<in> set (obj_keys ob) then obj_keys ob else obj_keys ob @ [k])"
proof (induction ob)
  case Nil
  then show ?case by (simp add: obj_keys_def)
next
  case (Cons p ob)
  then show ?case by (cases p) (auto simp: obj_keys_def split: if_splits)
qed

lemma set_obj_keys_obj_set [obj_simps, simp]:
  "set (obj_keys (obj_set ob k v)) = insert k (set (obj_keys ob))"
  by (auto simp: obj_keys_obj_set)

lemma obj_wf_obj_set [obj_simps, simp]: "obj_wf ob \<Longrightarrow> obj_wf (obj_set ob k v)"
  by (simp add: obj_wf_def obj_keys_obj_set)

lemma obj_wf_Nil [obj_simps, simp]: "obj_wf []"
  by (simp add: obj_wf_def obj_keys_def)

lemma obj_get_Nil [obj_simps, simp]: "obj_get [] = Map.empty"
  by (simp add: obj_get_def fun_eq_iff)

lemma obj_spread_Cons [obj_simps, simp]:
  "obj_spread ob ((k, v) # ps) = obj_spread (obj_set ob k v) ps"
  by (simp add: obj_spread_def)

lemma obj_spread_Nil [obj_simps, simp]: "obj_spread ob [] = ob"
  by (simp add: obj_spread_def)

text \<open>
  Lookup after spread: a later source wins, as in \<open>Map.map_add\<close>, and so does a later
  occurrence of a key within \<open>ps\<close> (hence the reversal).
\<close>

lemma obj_get_obj_spread [obj_simps]:
  "obj_get (obj_spread ob ps) = obj_get ob ++ map_of (rev ps)"
proof (induction ps arbitrary: ob rule: rev_induct)
  case Nil
  then show ?case by simp
next
  case (snoc p ps)
  obtain k v where p: "p = (k, v)" by (cases p)
  have "obj_spread ob (ps @ [p]) = obj_set (obj_spread ob ps) k v"
    by (simp add: obj_spread_def p)
  with snoc p show ?case by (auto simp: map_add_def fun_eq_iff split: option.splits)
qed

lemma obj_wf_obj_spread [obj_simps, simp]: "obj_wf ob \<Longrightarrow> obj_wf (obj_spread ob ps)"
  by (induction ps arbitrary: ob) auto

lemma obj_wf_obj_literal [obj_simps, simp]: "obj_wf (obj_literal ps)"
  by (simp add: obj_literal_def)

lemma obj_get_obj_literal [obj_simps]: "obj_get (obj_literal ps) = map_of (rev ps)"
  by (simp add: obj_literal_def obj_get_obj_spread)

lemma set_obj_keys_obj_spread [obj_simps]:
  "set (obj_keys (obj_spread ob ps)) = set (obj_keys ob) \<union> fst ` set ps"
proof (induction ps arbitrary: ob)
  case Nil
  then show ?case by simp
next
  case (Cons p ps)
  then show ?case by (cases p) force
qed

lemma obj_get_Some_values [obj_simps]:
  "obj_get ob k = Some v \<Longrightarrow> v \<in> set (obj_values ob)"
  by (force simp: obj_get_def obj_values_def dest: map_of_SomeD)

lemma obj_get_Some_keys [obj_simps]:
  "obj_get ob k = Some v \<Longrightarrow> k \<in> set (obj_keys ob)"
  by (force simp: obj_get_def obj_keys_def dest: map_of_SomeD)

lemma obj_get_None_keys [obj_simps]:
  "obj_get ob k = None \<longleftrightarrow> k \<notin> set (obj_keys ob)"
  by (simp add: obj_get_def obj_keys_def map_of_eq_None_iff)

text \<open>After assigning \<open>k\<close>, its value is among the object's values.\<close>

lemma obj_values_obj_set [obj_simps]: "v \<in> set (obj_values (obj_set ob k v))"
  using obj_get_Some_values [of "obj_set ob k v" k v] by simp

text \<open>Assigning fresh keys appends them: a literal with distinct keys is its list.\<close>

lemma obj_set_fresh: "k \<notin> set (obj_keys ob) \<Longrightarrow> obj_set ob k v = ob @ [(k, v)]"
  by (induction ob) (auto simp: obj_keys_def)

lemma obj_spread_fresh: "distinct (obj_keys ob @ map fst ps) \<Longrightarrow> obj_spread ob ps = ob @ ps"
proof (induction ps arbitrary: ob)
  case Nil
  then show ?case by (simp add: obj_spread_def)
next
  case (Cons p ps)
  obtain k v where p: "p = (k, v)" by (cases p)
  have "obj_set ob k v = ob @ [(k, v)]" using Cons.prems p by (simp add: obj_set_fresh)
  moreover have "obj_spread (ob @ [(k, v)]) ps = ob @ [(k, v)] @ ps"
    using Cons.prems p Cons.IH [of "ob @ [(k, v)]"] by (simp add: obj_keys_def)
  ultimately show ?case by (simp add: p obj_spread_def)
qed

lemma obj_literal_distinct [obj_simps]: "distinct (map fst ps) \<Longrightarrow> obj_literal ps = ps"
  using obj_spread_fresh [of "[]" ps] by (simp add: obj_literal_def obj_keys_def)

end
