(* ===== verification/JsNumber.thy ===== *)
theory JsNumber
  imports Prelude
begin

text \<open>
  Integer-valued JavaScript numbers and their conversions to and from strings,
  as the validator uses them: a numeric property key of a \<open>Record<number, ...>\<close>
  is stored as its decimal string (\<open>Number.prototype.toString\<close>), \<open>Object.keys\<close>
  returns those strings, and the script turns each back into a number with
  \<open>parseInt(chainIdAsString)\<close> (validate-contract-deployments.ts, line 191).
  \<open>parseInt\<close> is the ECMAScript built-in with the radix omitted: leading white
  space, an optional sign, a \<open>0x\<close> prefix selecting radix 16, then the longest
  prefix of digits; no digit at all is \<open>NaN\<close>, here \<open>None\<close>. Chain ids are
  integers far below \<open>2^53\<close>, so \<open>int\<close> stands for the JavaScript number.
  The main result is the round trip \<open>parse_int (js_int_to_string i) = Some i\<close>.
\<close>

subsection \<open>Printing\<close>

definition digit_char :: "nat \<Rightarrow> char" where
  "digit_char d = char_of (48 + d)"

fun dec_digits :: "nat \<Rightarrow> nat list" where
  "dec_digits n = (if n < 10 then [n] else dec_digits (n div 10) @ [n mod 10])"

declare dec_digits.simps [simp del]

definition dec_string :: "nat \<Rightarrow> string" where
  "dec_string n = map digit_char (dec_digits n)"

text \<open>\<open>String(i)\<close> for an integer-valued number below \<open>10^21\<close>.\<close>

definition js_int_to_string :: "int \<Rightarrow> string" where
  "js_int_to_string i =
     (if 0 \<le> i then dec_string (nat i) else CHR ''-'' # dec_string (nat (- i)))"

text \<open>A template literal \<open>${x}\<close> of a number that may be \<open>NaN\<close>.\<close>

definition js_num_opt_to_string :: "int option \<Rightarrow> string" where
  "js_num_opt_to_string x = (case x of None \<Rightarrow> ''NaN'' | Some i \<Rightarrow> js_int_to_string i)"

subsection \<open>parseInt\<close>

text \<open>The StrWhiteSpaceChar characters of the ASCII range.\<close>

definition is_js_space :: "char \<Rightarrow> bool" where
  "is_js_space c \<longleftrightarrow> of_char c \<in> {9, 10, 11, 12, 13, 32 :: nat}"

text \<open>The value of a digit in radix \<open>r\<close> (letters of either case are 10 to 35).\<close>

definition digit_val :: "nat \<Rightarrow> char \<Rightarrow> nat option" where
  "digit_val r c =
     (let n = of_char c;
          d = (if 48 \<le> n \<and> n \<le> 57 then Some (n - 48)
               else if 97 \<le> n \<and> n \<le> 122 then Some (n - 87)
               else if 65 \<le> n \<and> n \<le> 90 then Some (n - 55)
               else None)
      in case d of Some v \<Rightarrow> if v < r then Some v else None | None \<Rightarrow> None)"

fun take_digits :: "nat \<Rightarrow> string \<Rightarrow> nat list" where
  "take_digits r [] = []"
| "take_digits r (c # cs) =
     (case digit_val r c of None \<Rightarrow> [] | Some d \<Rightarrow> d # take_digits r cs)"

definition digits_to_nat :: "nat \<Rightarrow> nat list \<Rightarrow> nat" where
  "digits_to_nat r ds = foldl (\<lambda>acc d. acc * r + d) 0 ds"

definition parse_sign :: "string \<Rightarrow> bool \<times> string" where
  "parse_sign s =
     (case s of
        c # cs \<Rightarrow> if c = CHR ''-'' then (True, cs)
                  else if c = CHR ''+'' then (False, cs) else (False, s)
      | [] \<Rightarrow> (False, []))"

definition parse_radix :: "string \<Rightarrow> nat \<times> string" where
  "parse_radix s =
     (case s of
        c1 # c2 # cs \<Rightarrow>
          if c1 = CHR ''0'' \<and> (c2 = CHR ''x'' \<or> c2 = CHR ''X'') then (16, cs) else (10, s)
      | _ \<Rightarrow> (10, s))"

definition parse_int :: "string \<Rightarrow> int option" where
  "parse_int s =
     (let (neg, s1) = parse_sign (dropWhile is_js_space s);
          (r, s2) = parse_radix s1;
          ds = take_digits r s2
      in if ds = [] then None
         else Some ((if neg then -1 else 1) * int (digits_to_nat r ds)))"

subsection \<open>Lemmas on the decimal digits\<close>

text \<open>The digit characters by their codes, for evaluating printed numbers with \<open>simp\<close>.\<close>

lemma char_of_digit_codes:
  "char_of (48::nat) = CHR ''0''" "char_of (49::nat) = CHR ''1''" "char_of (50::nat) = CHR ''2''"
  "char_of (51::nat) = CHR ''3''" "char_of (52::nat) = CHR ''4''" "char_of (53::nat) = CHR ''5''"
  "char_of (54::nat) = CHR ''6''" "char_of (55::nat) = CHR ''7''" "char_of (56::nat) = CHR ''8''"
  "char_of (57::nat) = CHR ''9''"
  by code_simp+

lemma dec_digits_small: "d \<in> set (dec_digits n) \<Longrightarrow> d < 10"
proof (induction n rule: dec_digits.induct)
  case (1 n)
  then show ?case
    by (cases "n < 10") (auto simp: dec_digits.simps [of n])
qed

lemma dec_digits_value: "digits_to_nat 10 (dec_digits n) = n"
proof (induction n rule: dec_digits.induct)
  case (1 n)
  then show ?case
    by (cases "n < 10") (simp_all add: dec_digits.simps [of n] digits_to_nat_def)
qed

lemma dec_digits_not_Nil: "dec_digits n \<noteq> []"
  by (simp add: dec_digits.simps [of n])

text \<open>No leading zero: the first digit is 0 only for the number 0, printed \<open>0\<close>.\<close>

lemma dec_digits_hd_0: "dec_digits n = 0 # ds \<Longrightarrow> n = 0 \<and> ds = []"
proof (induction n arbitrary: ds rule: dec_digits.induct)
  case (1 n)
  show ?case
  proof (cases "n < 10")
    case True
    with "1.prems" show ?thesis by (simp add: dec_digits.simps [of n])
  next
    case False
    then obtain ds' where "dec_digits (n div 10) = 0 # ds'"
      using "1.prems" dec_digits_not_Nil [of "n div 10"]
      by (cases "dec_digits (n div 10)") (auto simp: dec_digits.simps [of n])
    with "1.IH" False have "n div 10 = 0" by blast
    with False show ?thesis by simp
  qed
qed

lemma digit_val_digit_char: "d < 10 \<Longrightarrow> digit_val 10 (digit_char d) = Some d"
  by (simp add: digit_val_def digit_char_def of_char_of Let_def)

lemma digit_char_not_space: "d < 10 \<Longrightarrow> \<not> is_js_space (digit_char d)"
  by (simp add: is_js_space_def digit_char_def of_char_of)

lemma digit_char_inject: "d < 10 \<Longrightarrow> e < 10 \<Longrightarrow> digit_char d = digit_char e \<longleftrightarrow> d = e"
  using digit_val_digit_char [of d] digit_val_digit_char [of e] by (metis option.inject)

lemma digit_char_0: "digit_char 0 = CHR ''0''"
  by (simp add: digit_char_def) code_simp

lemma take_digits_dec: "(\<forall>d\<in>set ds. d < 10) \<Longrightarrow> take_digits 10 (map digit_char ds) = ds"
  by (induction ds) (simp_all add: digit_val_digit_char)

lemma of_char_digit_char: "d < 10 \<Longrightarrow> of_char (digit_char d) = (48 + d :: nat)"
  by (simp add: digit_char_def of_char_of)

lemma digit_char_sign: "d < 10 \<Longrightarrow> digit_char d \<noteq> CHR ''-'' \<and> digit_char d \<noteq> CHR ''+''"
proof -
  assume "d < 10"
  then have "of_char (digit_char d) = (48 + d :: nat)" by (rule of_char_digit_char)
  then show ?thesis by auto
qed

lemma parse_radix_dec_string: "parse_radix (dec_string n) = (10, dec_string n)"
proof (cases "dec_digits n")
  case Nil
  then show ?thesis using dec_digits_not_Nil by simp
next
  case (Cons d ds)
  have "d < 10" using Cons dec_digits_small [of d n] by simp
  moreover have "d = 0 \<Longrightarrow> ds = []" using Cons dec_digits_hd_0 by blast
  ultimately show ?thesis
    using Cons digit_char_inject [of d 0]
    by (cases ds) (auto simp: parse_radix_def dec_string_def digit_char_0)
qed

lemma dec_string_not_Nil: "dec_string n \<noteq> []"
  by (simp add: dec_string_def dec_digits_not_Nil)

lemma dropWhile_space_dec_string: "dropWhile is_js_space (dec_string n) = dec_string n"
proof (cases "dec_digits n")
  case Nil
  then show ?thesis using dec_digits_not_Nil by simp
next
  case (Cons d ds)
  then have "d < 10" using dec_digits_small [of d n] by simp
  with Cons show ?thesis by (simp add: dec_string_def digit_char_not_space)
qed

lemma parse_sign_dec_string: "parse_sign (dec_string n) = (False, dec_string n)"
proof (cases "dec_digits n")
  case Nil
  then show ?thesis using dec_digits_not_Nil by simp
next
  case (Cons d ds)
  then have "d < 10" using dec_digits_small [of d n] by simp
  with Cons show ?thesis by (simp add: dec_string_def parse_sign_def digit_char_sign)
qed

lemma take_digits_dec_string: "take_digits 10 (dec_string n) = dec_digits n"
  by (simp add: dec_string_def take_digits_dec dec_digits_small)

lemmas dec_string_parse_simps =
  dropWhile_space_dec_string parse_sign_dec_string parse_radix_dec_string
  take_digits_dec_string dec_digits_value dec_digits_not_Nil

lemma is_js_space_minus: "\<not> is_js_space (CHR ''-'')"
  by (simp add: is_js_space_def)

lemma parse_int_dec_string: "parse_int (dec_string n) = Some (int n)"
  by (simp add: parse_int_def dec_string_parse_simps)

lemma parse_int_minus_dec_string: "parse_int (CHR ''-'' # dec_string n) = Some (- int n)"
  by (simp add: parse_int_def parse_sign_def is_js_space_minus dec_string_parse_simps)

text \<open>Printing then parsing, by the sign of the number.\<close>

lemmas parse_int_string_simps = js_int_to_string_def parse_int_dec_string parse_int_minus_dec_string

subsection \<open>The round trip\<close>

text \<open>
  Parsing the decimal string of an integer-valued number with \<open>parseInt\<close> gives the
  number back; so the chain id read back from an \<open>Object.keys\<close> string at line 191
  is the numeric key the registry was written with.
\<close>

lemma parse_int_js_int_to_string: "parse_int (js_int_to_string i) = Some i"
proof (cases "0 \<le> i")
  case True
  then show ?thesis by (simp add: js_int_to_string_def parse_int_dec_string)
next
  case False
  then show ?thesis by (simp add: js_int_to_string_def parse_int_minus_dec_string)
qed

lemma js_int_to_string_inject: "js_int_to_string i = js_int_to_string j \<longleftrightarrow> i = j"
proof
  assume "js_int_to_string i = js_int_to_string j"
  then have "parse_int (js_int_to_string i) = parse_int (js_int_to_string j)" by simp
  then show "i = j"
    by (auto simp: js_int_to_string_def parse_int_dec_string parse_int_minus_dec_string
        split: if_splits)
qed simp

end
