(* ===== verification/Versions.thy ===== *)
theory Versions
  imports Prelude JsNumber "HOL-Library.List_Lexorder"
begin

text \<open>
  Version selection (validate-contract-deployments.ts, lines 171--179): the script
  folds \<open>Object.keys(DELEGATOR_CONTRACTS)\<close> with \<open>reduce\<close>, starting from
  \<open>'0.0.0'\<close> and replacing the accumulator by a key exactly when
  \<open>compareVersions(version, acc) === 1\<close>. \<open>compareVersions\<close> comes from the
  \<open>compare-versions\<close> package (not part of this repository): it validates both
  arguments (throwing on an invalid one) and compares the dot-separated numeric
  segments left to right, a missing segment counting as 0. The model covers
  versions of one to four numeric segments and treats everything else as a throw
  (\<open>None\<close>). That is narrower than the library, which also accepts \<open>v\<close>, \<open>^\<close> and
  \<open>~\<close> prefixes, \<open>x\<close>/\<open>*\<close> wildcards and pre-release and build tags; the results
  are therefore stated only for keys that are valid numeric versions.

  Results: the segment comparison is the lexicographic order of the segment lists
  padded with zeros (a refinement lemma), hence a total preorder; on valid keys the
  fold returns a key (or the start value) that no key exceeds.
\<close>

subsection \<open>compareVersions\<close>

fun split_on :: "char \<Rightarrow> string \<Rightarrow> string list" where
  "split_on c [] = [[]]"
| "split_on c (x # xs) =
     (if x = c then [] # split_on c xs
      else (case split_on c xs of w # ws \<Rightarrow> (x # w) # ws | [] \<Rightarrow> [[x]]))"

definition is_numeric_segment :: "string \<Rightarrow> bool" where
  "is_numeric_segment s \<longleftrightarrow> s \<noteq> [] \<and> list_all (\<lambda>c. digit_val 10 c \<noteq> None) s"

definition parse_version :: "string \<Rightarrow> nat list option" where
  "parse_version s =
     (let segs = split_on CHR ''.'' s
      in if 1 \<le> length segs \<and> length segs \<le> 4 \<and> list_all is_numeric_segment segs
         then Some (map (\<lambda>seg. digits_to_nat 10 (take_digits 10 seg)) segs)
         else None)"

text \<open>\<open>compareSegments\<close>: the \<open>i\<close>-th segments compared for \<open>i\<close> up to the longer length,
  a missing one read as \<open>'0'\<close>.\<close>

fun cmp_segments :: "nat list \<Rightarrow> nat list \<Rightarrow> int" where
  "cmp_segments [] [] = 0"
| "cmp_segments (a # as) [] = (if 0 < a then 1 else cmp_segments as [])"
| "cmp_segments [] (b # bs) = (if 0 < b then -1 else cmp_segments [] bs)"
| "cmp_segments (a # as) (b # bs) =
     (if a > b then 1 else if a < b then -1 else cmp_segments as bs)"

definition compare_versions :: "string \<Rightarrow> string \<Rightarrow> int option" where
  "compare_versions v1 v2 =
     (case parse_version v1 of
        None \<Rightarrow> None
      | Some n1 \<Rightarrow> (case parse_version v2 of
          None \<Rightarrow> None
        | Some n2 \<Rightarrow> Some (cmp_segments n1 n2)))"

subsection \<open>The reduce of lines 171--179\<close>

fun latest_version_from :: "string \<Rightarrow> string list \<Rightarrow> string option" where
  "latest_version_from acc [] = Some acc"
| "latest_version_from acc (v # vs) =
     (case compare_versions v acc of
        None \<Rightarrow> None
      | Some c \<Rightarrow> latest_version_from (if c = 1 then v else acc) vs)"

definition latest_version :: "string list \<Rightarrow> string option" where
  "latest_version keys = latest_version_from ''0.0.0'' keys"

subsection \<open>The segment order is the padded lexicographic order\<close>

definition pad :: "nat \<Rightarrow> nat list \<Rightarrow> nat list" where
  "pad m xs = xs @ replicate (m - length xs) 0"

definition lex_cmp :: "nat list \<Rightarrow> nat list \<Rightarrow> int" where
  "lex_cmp xs ys = (if xs < ys then -1 else if xs = ys then 0 else 1)"

lemma pad_Cons: "pad (Suc m) (x # xs) = x # pad m xs"
  by (simp add: pad_def)

lemma pad_Nil_Suc: "pad (Suc m) [] = 0 # pad m []"
  by (simp add: pad_def)

lemma length_pad: "length xs \<le> m \<Longrightarrow> length (pad m xs) = m"
  by (simp add: pad_def)

lemma cmp_segments_pad:
  "length xs \<le> m \<Longrightarrow> length ys \<le> m \<Longrightarrow> cmp_segments xs ys = lex_cmp (pad m xs) (pad m ys)"
proof (induction xs ys arbitrary: m rule: cmp_segments.induct)
  case 1
  then show ?case by (simp add: lex_cmp_def)
next
  case (2 a as)
  then obtain m' where m: "m = Suc m'" by (cases m) auto
  with 2 show ?case by (auto simp: lex_cmp_def pad_Cons pad_Nil_Suc)
next
  case (3 b bs)
  then obtain m' where m: "m = Suc m'" by (cases m) auto
  with 3 show ?case by (auto simp: lex_cmp_def pad_Cons pad_Nil_Suc)
next
  case (4 a as b bs)
  then obtain m' where m: "m = Suc m'" by (cases m) auto
  with 4 show ?case by (auto simp: lex_cmp_def pad_Cons)
qed

lemma cmp_segments_max:
  "cmp_segments xs ys = lex_cmp (pad (max (length xs) (length ys)) xs) (pad (max (length xs) (length ys)) ys)"
  by (rule cmp_segments_pad) simp_all

lemma cmp_segments_values: "cmp_segments xs ys \<in> {-1, 0, 1}"
  by (simp add: cmp_segments_max lex_cmp_def)

lemma cmp_segments_antisym: "cmp_segments ys xs = - cmp_segments xs ys"
proof -
  let ?m = "max (length xs) (length ys)"
  have "cmp_segments ys xs = lex_cmp (pad ?m ys) (pad ?m xs)"
    by (rule cmp_segments_pad) simp_all
  moreover have "cmp_segments xs ys = lex_cmp (pad ?m xs) (pad ?m ys)"
    by (rule cmp_segments_pad) simp_all
  ultimately show ?thesis by (auto simp: lex_cmp_def)
qed

lemma cmp_segments_le_iff:
  "length xs \<le> m \<Longrightarrow> length ys \<le> m \<Longrightarrow> cmp_segments xs ys \<le> 0 \<longleftrightarrow> pad m xs \<le> pad m ys"
  by (auto simp: cmp_segments_pad lex_cmp_def)

lemma cmp_segments_trans:
  assumes "cmp_segments xs ys \<le> 0" and "cmp_segments ys zs \<le> 0"
  shows "cmp_segments xs zs \<le> 0"
proof -
  let ?m = "max (length xs) (max (length ys) (length zs))"
  have "pad ?m xs \<le> pad ?m ys" using assms(1) cmp_segments_le_iff [of xs ?m ys] by simp
  moreover have "pad ?m ys \<le> pad ?m zs" using assms(2) cmp_segments_le_iff [of ys ?m zs] by simp
  ultimately have "pad ?m xs \<le> pad ?m zs" by (rule order_trans)
  then show ?thesis using cmp_segments_le_iff [of xs ?m zs] by simp
qed

lemma cmp_segments_refl: "cmp_segments xs xs = 0"
  using cmp_segments_antisym [of xs xs] by simp

subsection \<open>Properties of the fold\<close>

abbreviation valid_version :: "string \<Rightarrow> bool" where
  "valid_version v \<equiv> parse_version v \<noteq> None"

lemma parse_version_zero: "parse_version ''0.0.0'' = Some [0, 0, 0]"
  by code_simp

lemma compare_versions_Some_iff:
  "compare_versions a b = Some c \<longleftrightarrow>
     (\<exists>na nb. parse_version a = Some na \<and> parse_version b = Some nb \<and> c = cmp_segments na nb)"
  by (auto simp: compare_versions_def split: option.splits)

lemma compare_versions_None_iff:
  "compare_versions a b = None \<longleftrightarrow> \<not> valid_version a \<or> \<not> valid_version b"
  by (auto simp: compare_versions_def split: option.splits)

text \<open>The loop invariant: the accumulator is valid, at least its start value and at
  least every key it has passed.\<close>

lemma latest_version_from_max:
  assumes "parse_version acc = Some na" and "list_all valid_version vs"
  shows "\<exists>r nr. latest_version_from acc vs = Some r \<and> parse_version r = Some nr \<and>
           (r = acc \<or> r \<in> set vs) \<and> cmp_segments na nr \<le> 0 \<and>
           list_all (\<lambda>v. \<forall>nv. parse_version v = Some nv \<longrightarrow> cmp_segments nv nr \<le> 0) vs"
  using assms
proof (induction vs arbitrary: acc na)
  case Nil
  then show ?case by (simp add: cmp_segments_refl)
next
  case (Cons v vs)
  from Cons.prems obtain nv where nv: "parse_version v = Some nv" by auto
  let ?acc' = "if cmp_segments nv na = 1 then v else acc"
  let ?na' = "if cmp_segments nv na = 1 then nv else na"
  have acc': "parse_version ?acc' = Some ?na'" using Cons.prems nv by simp
  have step: "latest_version_from acc (v # vs) = latest_version_from ?acc' vs"
    using Cons.prems nv by (simp add: compare_versions_def)
  have le: "cmp_segments na ?na' \<le> 0" and le_v: "cmp_segments nv ?na' \<le> 0"
    using cmp_segments_values [of nv na] cmp_segments_antisym [of nv na]
    by (auto simp: cmp_segments_refl)
  obtain r nr where r: "latest_version_from ?acc' vs = Some r" "parse_version r = Some nr"
    "r = ?acc' \<or> r \<in> set vs" "cmp_segments ?na' nr \<le> 0"
    "list_all (\<lambda>v. \<forall>nv. parse_version v = Some nv \<longrightarrow> cmp_segments nv nr \<le> 0) vs"
    using Cons.IH [OF acc'] Cons.prems by auto
  have "cmp_segments na nr \<le> 0" using le r(4) by (rule cmp_segments_trans)
  moreover have "cmp_segments nv nr \<le> 0" using le_v r(4) by (rule cmp_segments_trans)
  ultimately show ?case using step r nv by (auto split: if_splits)
qed

lemma latest_version_spec:
  assumes "list_all valid_version keys"
  shows "\<exists>r nr. latest_version keys = Some r \<and> parse_version r = Some nr \<and>
           (r = ''0.0.0'' \<or> r \<in> set keys) \<and> cmp_segments [0, 0, 0] nr \<le> 0 \<and>
           list_all (\<lambda>v. \<forall>nv. parse_version v = Some nv \<longrightarrow> cmp_segments nv nr \<le> 0) keys"
  using latest_version_from_max [OF parse_version_zero assms] by (simp add: latest_version_def)

subsection \<open>Claims on version selection\<close>

text \<open>
  C13: when every key of the registry is a valid numeric version, the reduce of lines
  171--179 returns a version that is one of the keys or the start value
  \<open>'0.0.0'\<close>, and no key compares greater than it: it selects the highest version.
\<close>

theorem latest_version_max:
  assumes "list_all valid_version keys"
  shows "\<exists>v. latest_version keys = Some v \<and> (v = ''0.0.0'' \<or> v \<in> set keys) \<and>
           list_all (\<lambda>k. \<exists>c. compare_versions k v = Some c \<and> c \<le> 0) keys"
proof -
  obtain r nr where r: "latest_version keys = Some r" "parse_version r = Some nr"
    "r = ''0.0.0'' \<or> r \<in> set keys"
    "list_all (\<lambda>v. \<forall>nv. parse_version v = Some nv \<longrightarrow> cmp_segments nv nr \<le> 0) keys"
    using latest_version_spec [OF assms] by blast
  have "list_all (\<lambda>k. \<exists>c. compare_versions k r = Some c \<and> c \<le> 0) keys"
    using assms r(2,4) by (auto simp: list_all_iff compare_versions_def)
  with r(1,3) show ?thesis by blast
qed

theorem latest_version_max_witness:
  "list_all valid_version [''1.0.0'', ''1.1.0'', ''1.3.0''] \<and>
   (\<exists>v. latest_version [''1.0.0'', ''1.1.0'', ''1.3.0''] = Some v \<and>
        (v = ''0.0.0'' \<or> v \<in> set [''1.0.0'', ''1.1.0'', ''1.3.0'']) \<and>
        list_all (\<lambda>k. \<exists>c. compare_versions k v = Some c \<and> c \<le> 0)
          [''1.0.0'', ''1.1.0'', ''1.3.0''])"
proof -
  have h: "list_all valid_version [''1.0.0'', ''1.1.0'', ''1.3.0'']" by code_simp
  show ?thesis using h latest_version_max [OF h] by blast
qed

end
