(* ===== verification/Interleave.thy ===== *)
theory Interleave
  imports Prelude
begin

text \<open>
  Cooperative concurrency as interleaving. The validator launches one async task
  per chain and, inside a chain, one per contract; Node.js runs each task's code
  between two \<open>await\<close>s without interruption, in an order the network decides.
  A run is therefore some interleaving of the tasks' action sequences. This
  theory is generic: actions of a type \<open>'a\<close> act on a state \<open>'s\<close> through a step
  function \<open>f\<close>, and \<open>obs\<close> is the part of the state a claim is about. Its main
  lemma: if any two actions of different tasks commute as far as \<open>obs\<close> sees, and
  \<open>obs\<close> after a step depends only on \<open>obs\<close> before it, then every interleaving
  yields the same \<open>obs\<close> as running the tasks one after the other.
  The validator theory instantiates \<open>f\<close>, \<open>obs\<close> and the commutation relation.
\<close>

subsection \<open>Interleavings\<close>

inductive merge2 :: "'a list \<Rightarrow> 'a list \<Rightarrow> 'a list \<Rightarrow> bool" where
  merge2_Nil: "merge2 [] [] []"
| merge2_left: "merge2 xs ys zs \<Longrightarrow> merge2 (x # xs) ys (x # zs)"
| merge2_right: "merge2 xs ys zs \<Longrightarrow> merge2 xs (y # ys) (y # zs)"

inductive interleaves :: "'a list list \<Rightarrow> 'a list \<Rightarrow> bool" where
  interleaves_Nil: "interleaves [] []"
| interleaves_Cons: "interleaves ts u \<Longrightarrow> merge2 t u s \<Longrightarrow> interleaves (t # ts) s"

inductive_cases merge2_NilE: "merge2 [] [] zs"
inductive_cases interleaves_ConsE: "interleaves (t # ts) s"

lemma merge2_set: "merge2 xs ys zs \<Longrightarrow> set zs = set xs \<union> set ys"
  by (induction rule: merge2.induct) auto

lemma merge2_length: "merge2 xs ys zs \<Longrightarrow> length zs = length xs + length ys"
  by (induction rule: merge2.induct) auto

lemma merge2_append: "merge2 xs [] xs"
  by (induction xs) (auto intro: merge2.intros)

lemma merge2_Nil_left: "merge2 [] ys ys"
  by (induction ys) (auto intro: merge2.intros)

lemma interleaves_set: "interleaves ts s \<Longrightarrow> set s = set (concat ts)"
  by (induction rule: interleaves.induct) (auto dest: merge2_set)

lemma interleaves_concat: "interleaves ts (concat ts)"
proof (induction ts)
  case Nil
  then show ?case by (simp add: interleaves_Nil)
next
  case (Cons t ts)
  have "merge2 t (concat ts) (t @ concat ts)"
  proof (induction t)
    case Nil
    then show ?case by (simp add: merge2_Nil_left)
  next
    case (Cons x t)
    then show ?case by (simp add: merge2_left)
  qed
  with Cons show ?case by (auto intro: interleaves_Cons)
qed

subsection \<open>Commuting steps\<close>

text \<open>Tasks whose actions pairwise commute with the actions of every later task.\<close>

fun tasks_commute :: "('a \<Rightarrow> 'a \<Rightarrow> bool) \<Rightarrow> 'a list list \<Rightarrow> bool" where
  "tasks_commute C [] = True"
| "tasks_commute C (t # ts) =
     (list_all (\<lambda>a. list_all (C a) (concat ts)) t \<and> tasks_commute C ts)"

text \<open>\<open>obs\<close> is a congruence: what it sees after a step depends on what it saw before.\<close>

lemma fold_obs_cong:
  assumes cong: "\<And>a st st'. obs st = obs st' \<Longrightarrow> obs (f a st) = obs (f a st')"
  shows "obs st = obs st' \<Longrightarrow> obs (fold f xs st) = obs (fold f xs st')"
proof (induction xs arbitrary: st st')
  case Nil
  then show ?case by simp
next
  case (Cons x xs)
  have "obs (f x st) = obs (f x st')" using Cons.prems by (rule cong)
  then have "obs (fold f xs (f x st)) = obs (fold f xs (f x st'))" by (rule Cons.IH)
  then show ?case by simp
qed

text \<open>An action that commutes with each of \<open>xs\<close> can be moved in front of them.\<close>

lemma fold_obs_swap:
  assumes cong: "\<And>a st st'. obs st = obs st' \<Longrightarrow> obs (f a st) = obs (f a st')"
    and comm: "\<And>a st. a \<in> set xs \<Longrightarrow> obs (f y (f a st)) = obs (f a (f y st))"
  shows "obs (fold f xs (f y st)) = obs (f y (fold f xs st))"
  using comm
proof (induction xs arbitrary: st)
  case Nil
  then show ?case by simp
next
  case (Cons x xs)
  have "obs (f x (f y st)) = obs (f y (f x st))" using Cons.prems by simp
  then have "obs (fold f xs (f x (f y st))) = obs (fold f xs (f y (f x st)))"
    using fold_obs_cong [of obs f, OF cong] by blast
  also have "\<dots> = obs (f y (fold f xs (f x st)))" using Cons.IH Cons.prems by simp
  finally show ?case by simp
qed

lemma fold_obs_merge2:
  assumes "merge2 xs ys zs"
    and cong: "\<And>a st st'. obs st = obs st' \<Longrightarrow> obs (f a st) = obs (f a st')"
    and comm: "\<And>a b st. a \<in> set xs \<Longrightarrow> b \<in> set ys \<Longrightarrow> obs (f b (f a st)) = obs (f a (f b st))"
  shows "obs (fold f zs st) = obs (fold f (xs @ ys) st)"
  using assms(1) comm
proof (induction arbitrary: st rule: merge2.induct)
  case merge2_Nil
  then show ?case by simp
next
  case (merge2_left xs ys zs x)
  then show ?case by simp
next
  case (merge2_right xs ys zs y)
  have "obs (fold f zs (f y st)) = obs (fold f (xs @ ys) (f y st))"
    using merge2_right by simp
  also have "\<dots> = obs (fold f ys (fold f xs (f y st)))" by simp
  also have "\<dots> = obs (fold f ys (f y (fold f xs st)))"
  proof -
    have "obs (fold f xs (f y st)) = obs (f y (fold f xs st))"
      using fold_obs_swap [of obs f xs y, OF cong] merge2_right.prems by simp
    then show ?thesis using fold_obs_cong [of obs f, OF cong] by blast
  qed
  finally show ?case by simp
qed

text \<open>The main lemma: an interleaving is observably the sequential run.\<close>

lemma fold_obs_interleaves:
  assumes "interleaves ts s"
    and cong: "\<And>a st st'. obs st = obs st' \<Longrightarrow> obs (f a st) = obs (f a st')"
    and comm: "\<And>a b st. C a b \<Longrightarrow> obs (f b (f a st)) = obs (f a (f b st))"
    and "tasks_commute C ts"
  shows "obs (fold f s st) = obs (fold f (concat ts) st)"
  using assms(1,4)
proof (induction arbitrary: st rule: interleaves.induct)
  case interleaves_Nil
  then show ?case by simp
next
  case (interleaves_Cons ts u t s)
  have tu: "set u = set (concat ts)" using interleaves_Cons.hyps(1) by (rule interleaves_set)
  have "obs (fold f s st) = obs (fold f (t @ u) st)"
  proof -
    have "\<And>a b st. a \<in> set t \<Longrightarrow> b \<in> set u \<Longrightarrow> obs (f b (f a st)) = obs (f a (f b st))"
      using interleaves_Cons.prems tu comm by (auto simp: list_all_iff)
    then show ?thesis
      using fold_obs_merge2 [of t u s obs f, OF interleaves_Cons.hyps(2) cong] by blast
  qed
  also have "\<dots> = obs (fold f u (fold f t st))" by simp
  also have "\<dots> = obs (fold f (concat ts) (fold f t st))"
    using interleaves_Cons.IH interleaves_Cons.prems by simp
  finally show ?case by simp
qed

end
