(* ===== verification/Registry.thy ===== *)
theory Registry
  imports Prelude JsNumber
begin

text \<open>
  The registry of src/packages/delegation-deployments/src/index.ts.
  \<^item> \<open>CHAIN_ID\<close> (lines 8--44): chain names to numeric chain ids, an object literal.
  \<^item> \<open>DELEGATOR_CONTRACTS\<close> (lines 46--119): version string to chain id to contract
    name to address, three levels of objects. Its leaves are the tables
    \<open>deployments_1_3_0\<close>, \<open>deployments_1_1_0\<close>, \<open>deployments_1_0_0\<close> of the
    sibling module contractAddresses, which is not part of the sources; the
    registry is modelled as a function of those three tables, so every lemma
    holds whatever addresses they hold.
  The numeric keys of the inner objects are JavaScript property keys; the validator
  reads them back with \<open>Object.keys\<close> (array-index keys in ascending numeric
  order, as decimal strings) and looks a chain up by that string.
\<close>

type_synonym contracts = "(string, address) js_obj"
type_synonym deployed_contracts = "(string, (int, contracts) js_obj) js_obj"

subsection \<open>CHAIN_ID\<close>

definition CHAIN_ID :: "(string, int) js_obj" where
  "CHAIN_ID = obj_literal [
     (''arbitrum'', 0xa4b1),
     (''arbitrumNova'', 0xa4ba),
     (''base'', 0x2105),
     (''berachain'', 0x138de),
     (''bsc'', 0x38),
     (''gnosis'', 0x64),
     (''ink'', 0xdef1),
     (''linea'', 0xe708),
     (''mainnet'', 0x1),
     (''optimism'', 0xa),
     (''polygon'', 0x89),
     (''sei'', 0x531),
     (''sonic'', 0x92),
     (''unichain'', 0x82),
     (''bscTestnet'', 0x61),
     (''arbitrumSepolia'', 0x66eee),
     (''baseSepolia'', 0x14a34),
     (''berachainBepolia'', 0x138c5),
     (''chiado'', 0x27d8),
     (''citreaTestnet'', 0x13fb),
     (''hoodiTestnet'', 0x88bb0),
     (''inkSepolia'', 0xba5ed),
     (''lineaSepolia'', 0xe705),
     (''megaEthTestnet'', 0x18c6),
     (''monadTestnet'', 0x279f),
     (''optimismSepolia'', 0xaa37dc),
     (''polygonAmoy'', 0x13882),
     (''seiTestnet'', 0x530),
     (''sepolia'', 0xaa36a7),
     (''sonicTestnet'', 0x3909),
     (''unichainSepolia'', 0x515),
     (''lineaGoerli'', 0xe704)]"

text \<open>\<open>CHAIN_ID.name\<close>; TypeScript only accepts names the literal declares.\<close>

definition chain_id :: "string \<Rightarrow> int" where
  "chain_id name = the (obj_get CHAIN_ID name)"

subsection \<open>DELEGATOR_CONTRACTS\<close>

definition DELEGATOR_CONTRACTS ::
  "contracts \<Rightarrow> contracts \<Rightarrow> contracts \<Rightarrow> deployed_contracts" where
  "DELEGATOR_CONTRACTS deployments_1_3_0 deployments_1_1_0 deployments_1_0_0 = obj_literal [
     (''1.0.0'', obj_literal [
        (chain_id ''optimism'', deployments_1_0_0),
        (chain_id ''polygon'', deployments_1_0_0),
        (chain_id ''base'', deployments_1_0_0),
        (chain_id ''arbitrum'', deployments_1_0_0),
        (chain_id ''linea'', deployments_1_0_0),
        (chain_id ''sepolia'', obj_spread (obj_literal deployments_1_0_0)
           [(''HybridDeleGatorImpl'', ''0x5989F5D13DF8fc818EdA65e417AED90459fD67F7'')]),
        (chain_id ''lineaSepolia'', obj_spread (obj_literal deployments_1_0_0)
           [(''HybridDeleGatorImpl'', ''0x5989F5D13DF8fc818EdA65e417AED90459fD67F7'')])]),
     (''1.1.0'', obj_literal [
        (chain_id ''arbitrum'', deployments_1_1_0),
        (chain_id ''base'', deployments_1_1_0),
        (chain_id ''linea'', deployments_1_1_0),
        (chain_id ''optimism'', deployments_1_1_0),
        (chain_id ''polygon'', deployments_1_1_0),
        (chain_id ''sepolia'', deployments_1_1_0),
        (chain_id ''lineaSepolia'', deployments_1_1_0),
        (chain_id ''baseSepolia'', obj_spread (obj_literal deployments_1_1_0)
           [(''SimpleFactory'', ''0xE8eA1DE8D6AfE400B7C8C1A81B7C29B7876b4d02'')])]),
     (''1.3.0'', obj_literal [
        (chain_id ''mainnet'', deployments_1_3_0),
        (chain_id ''polygon'', deployments_1_3_0),
        (chain_id ''bsc'', deployments_1_3_0),
        (chain_id ''optimism'', deployments_1_3_0),
        (chain_id ''arbitrum'', deployments_1_3_0),
        (chain_id ''ink'', deployments_1_3_0),
        (chain_id ''linea'', deployments_1_3_0),
        (chain_id ''base'', deployments_1_3_0),
        (chain_id ''gnosis'', deployments_1_3_0),
        (chain_id ''berachain'', deployments_1_3_0),
        (chain_id ''unichain'', deployments_1_3_0),
        (chain_id ''arbitrumNova'', deployments_1_3_0),
        (chain_id ''sei'', deployments_1_3_0),
        (chain_id ''sonic'', deployments_1_3_0),
        (chain_id ''bscTestnet'', deployments_1_3_0),
        (chain_id ''citreaTestnet'', deployments_1_3_0),
        (chain_id ''megaEthTestnet'', deployments_1_3_0),
        (chain_id ''chiado'', deployments_1_3_0),
        (chain_id ''lineaSepolia'', deployments_1_3_0),
        (chain_id ''berachainBepolia'', deployments_1_3_0),
        (chain_id ''baseSepolia'', deployments_1_3_0),
        (chain_id ''arbitrumSepolia'', deployments_1_3_0),
        (chain_id ''sepolia'', deployments_1_3_0),
        (chain_id ''optimismSepolia'', deployments_1_3_0),
        (chain_id ''unichainSepolia'', deployments_1_3_0),
        (chain_id ''polygonAmoy'', deployments_1_3_0),
        (chain_id ''inkSepolia'', deployments_1_3_0),
        (chain_id ''monadTestnet'', deployments_1_3_0),
        (chain_id ''seiTestnet'', deployments_1_3_0),
        (chain_id ''sonicTestnet'', deployments_1_3_0),
        (chain_id ''hoodiTestnet'', deployments_1_3_0)])]"

subsection \<open>Numeric property keys\<close>

text \<open>
  An integer key \<open>k\<close> is an array index when \<open>0 \<le> k < 2^32 - 1\<close>. \<open>Object.keys\<close>
  lists the array-index keys first in ascending order, then the other keys in
  creation order, every key as its string (OrdinaryOwnPropertyKeys).
\<close>

definition is_array_index :: "int \<Rightarrow> bool" where
  "is_array_index k \<longleftrightarrow> 0 \<le> k \<and> k < 2 ^ 32 - 1"

definition own_keys_int :: "int list \<Rightarrow> string list" where
  "own_keys_int ks =
     map js_int_to_string (sort (filter is_array_index ks) @ filter (\<lambda>k. \<not> is_array_index k) ks)"

text \<open>\<open>o[s]\<close> for a property key string \<open>s\<close> on an object with numeric keys.\<close>

definition obj_get_str :: "(int, 'v) js_obj \<Rightarrow> string \<Rightarrow> 'v option" where
  "obj_get_str ob s = map_of (map (\<lambda>(k, v). (js_int_to_string k, v)) ob) s"

subsection \<open>Lemmas\<close>

lemma obj_get_str_to_string: "obj_get_str ob (js_int_to_string k) = obj_get ob k"
proof (induction ob)
  case Nil
  then show ?case by (simp add: obj_get_str_def)
next
  case (Cons p ob)
  then show ?case
    by (cases p) (auto simp: obj_get_str_def obj_get_def js_int_to_string_inject)
qed

lemma distinct_own_keys_int: "distinct ks \<Longrightarrow> distinct (own_keys_int ks)"
  by (auto simp: own_keys_int_def distinct_map js_int_to_string_inject inj_on_def)

lemma set_own_keys_int: "set (own_keys_int ks) = js_int_to_string ` set ks"
  by (auto simp: own_keys_int_def)

lemma own_keys_int_all_index:
  "list_all is_array_index ks \<Longrightarrow> own_keys_int ks = map js_int_to_string (sort ks)"
  by (simp add: own_keys_int_def list_all_iff)

end
