(* ===== verification/Chains.thy ===== *)
theory Chains
  imports Prelude JsNumber Registry
begin

text \<open>
  The chain catalog of validate-contract-deployments.ts, lines 15--169, and the
  resolution of a chain id against it (lines 195--209).
  \<^item> A viem \<open>Chain\<close> is the record \<open>chain_desc\<close> (the fields the script writes or reads).
  \<^item> The nine descriptors the script defines itself (lines 15--148) are constants.
  \<^item> \<open>chains\<close> (lines 150--161) spreads viem's catalog \<open>allChains\<close> and then sets the
    nine custom entries: an entry whose name viem already exports is replaced in
    place, the others are appended. viem's catalog is a parameter: it is an
    external library whose contents are not part of this repository.
  \<^item> \<open>rpcUrlOverrides\<close> (lines 165--169) reads \<open>chains.mainnet.id\<close>, \<open>chains.bsc.id\<close> and
    \<open>chains.bscTestnet.id\<close>; a missing entry is a TypeError at module load (\<open>None\<close>).
  \<^item> \<open>find_chain\<close> is \<open>Object.values(chains).find((c) => c.id === chainId)\<close>: the first
    descriptor with that id in property order; a \<open>NaN\<close> id matches nothing.
  \<^item> \<open>transport_url\<close> is the URL the client talks to: \<open>http(rpcUrlOverrides[chainId])\<close>
    with viem's fallback to the chain's first default URL; none at all makes
    \<open>createPublicClient\<close> throw (\<open>None\<close>).
  The results: each custom descriptor resolves for any viem catalog, and a chain id viem
  knows resolves to viem's descriptor unless the script overwrites it or puts that id
  under one of viem's keys; a custom descriptor sharing the id under a new key is then
  never used (shown on the small catalog \<open>example_catalog\<close>).
\<close>

record chain_desc =
  chain_desc_id :: int
  chain_name :: string
  rpc_default_http :: "url list"
  currency_name :: string
  currency_symbol :: string
  currency_decimals :: nat

type_synonym chain_catalog = "(string, chain_desc) js_obj"

subsection \<open>The custom descriptors (lines 15--148)\<close>

definition megaEthTestNetChain :: chain_desc where
  "megaEthTestNetChain = \<lparr>chain_desc_id = 6342, chain_name = ''MegaEth Testnet'',
     rpc_default_http = [''https://carrot.megaeth.com/rpc''],
     currency_name = ''Ether'', currency_symbol = ''ETH'', currency_decimals = 18\<rparr>"

definition berachainMainnetChain :: chain_desc where
  "berachainMainnetChain = \<lparr>chain_desc_id = 80094, chain_name = ''Berachain'',
     rpc_default_http = [''https://rpc.berachain.com/''],
     currency_name = ''Bera'', currency_symbol = ''BERA'', currency_decimals = 18\<rparr>"

definition bepoliaTestnetChain :: chain_desc where
  "bepoliaTestnetChain = \<lparr>chain_desc_id = 80069, chain_name = ''Berachain Bepolia'',
     rpc_default_http = [''https://bepolia.rpc.berachain.com/''],
     currency_name = ''Bera'', currency_symbol = ''BERA'', currency_decimals = 18\<rparr>"

definition unichainChain :: chain_desc where
  "unichainChain = \<lparr>chain_desc_id = 130, chain_name = ''Unichain'',
     rpc_default_http = [''https://mainnet.unichain.org''],
     currency_name = ''Unichain'', currency_symbol = ''UNI'', currency_decimals = 18\<rparr>"

definition monadTestnetChain :: chain_desc where
  "monadTestnetChain = \<lparr>chain_desc_id = 10143, chain_name = ''Monad Testnet'',
     rpc_default_http = [''https://testnet-rpc.monad.xyz''],
     currency_name = ''Monad'', currency_symbol = ''MON'', currency_decimals = 18\<rparr>"

definition citreaTestnetChain :: chain_desc where
  "citreaTestnetChain = \<lparr>chain_desc_id = 5115, chain_name = ''Citrea Testnet'',
     rpc_default_http = [''https://rpc.testnet.citrea.xyz''],
     currency_name = ''cBTC'', currency_symbol = ''cBTC'', currency_decimals = 18\<rparr>"

definition inkMainnetChain :: chain_desc where
  "inkMainnetChain = \<lparr>chain_desc_id = 57073, chain_name = ''Ink Mainnet'',
     rpc_default_http = [''https://rpc-qnd.inkonchain.com''],
     currency_name = ''Ether'', currency_symbol = ''ETH'', currency_decimals = 18\<rparr>"

definition inkSepoliaChain :: chain_desc where
  "inkSepoliaChain = \<lparr>chain_desc_id = 763373, chain_name = ''Ink Sepolia'',
     rpc_default_http = [''https://ink-sepolia.drpc.org''],
     currency_name = ''Ether'', currency_symbol = ''ETH'', currency_decimals = 18\<rparr>"

definition sonicTestnetChain :: chain_desc where
  "sonicTestnetChain = \<lparr>chain_desc_id = 14601, chain_name = ''Sonic Testnet'',
     rpc_default_http = [''https://rpc.testnet.soniclabs.com''],
     currency_name = ''Sonic'', currency_symbol = ''SONIC'', currency_decimals = 18\<rparr>"

subsection \<open>The catalog (lines 150--161) and the overrides (lines 163--169)\<close>

definition custom_chains :: "(string \<times> chain_desc) list" where
  "custom_chains = [
     (''megaEthTestNet'', megaEthTestNetChain),
     (''berachainMainnet'', berachainMainnetChain),
     (''bepoliaTestnet'', bepoliaTestnetChain),
     (''unichain'', unichainChain),
     (''monadTestnet'', monadTestnetChain),
     (''citreaTestnet'', citreaTestnetChain),
     (''inkMainnet'', inkMainnetChain),
     (''inkSepolia'', inkSepoliaChain),
     (''sonicTestnet'', sonicTestnetChain)]"

definition chains :: "chain_catalog \<Rightarrow> chain_catalog" where
  "chains allChains = obj_spread (obj_literal allChains) custom_chains"

definition rpcUrlOverrides :: "chain_catalog \<Rightarrow> (int, url) js_obj option" where
  "rpcUrlOverrides cs =
     (case obj_get cs ''mainnet'' of
        None \<Rightarrow> None
      | Some mainnet \<Rightarrow> (case obj_get cs ''bsc'' of
          None \<Rightarrow> None
        | Some bsc \<Rightarrow> (case obj_get cs ''bscTestnet'' of
            None \<Rightarrow> None
          | Some bscTestnet \<Rightarrow> Some (obj_literal [
              (chain_desc_id mainnet, ''https://eth.merkle.io''),
              (chain_desc_id bsc, ''https://bsc-dataseed1.binance.org/''),
              (chain_desc_id bscTestnet, ''https://bsc-testnet-rpc.publicnode.com'')]))))"

subsection \<open>Resolution (lines 195--209)\<close>

definition find_chain :: "chain_catalog \<Rightarrow> int option \<Rightarrow> chain_desc option" where
  "find_chain cs chainId = find (\<lambda>c. Some (chain_desc_id c) = chainId) (obj_values cs)"

definition transport_url :: "(int, url) js_obj \<Rightarrow> int option \<Rightarrow> chain_desc \<Rightarrow> url option" where
  "transport_url overrides chainId c =
     (case (case chainId of Some i \<Rightarrow> obj_get overrides i | None \<Rightarrow> None) of
        Some u \<Rightarrow> Some u
      | None \<Rightarrow> (case rpc_default_http c of u # _ \<Rightarrow> Some u | [] \<Rightarrow> None))"

subsection \<open>An illustrative catalog\<close>

text \<open>
  A small catalog in the shape of viem's (names and URLs are placeholders): it exports a
  chain under the key \<open>ink\<close> with the id 57073 that the custom \<open>inkMainnet\<close> entry also has.
\<close>

definition example_catalog :: chain_catalog where
  "example_catalog = [
     (''bsc'', \<lparr>chain_desc_id = 56, chain_name = ''BNB Smart Chain'', rpc_default_http = [''https://rpc.example/bsc''],
        currency_name = ''BNB'', currency_symbol = ''BNB'', currency_decimals = 18\<rparr>),
     (''bscTestnet'', \<lparr>chain_desc_id = 97, chain_name = ''BNB Testnet'', rpc_default_http = [''https://rpc.example/bsct''],
        currency_name = ''BNB'', currency_symbol = ''tBNB'', currency_decimals = 18\<rparr>),
     (''ink'', \<lparr>chain_desc_id = 57073, chain_name = ''Ink'', rpc_default_http = [''https://rpc.example/ink''],
        currency_name = ''Ether'', currency_symbol = ''ETH'', currency_decimals = 18\<rparr>),
     (''mainnet'', \<lparr>chain_desc_id = 1, chain_name = ''Ethereum'', rpc_default_http = [''https://rpc.example/eth''],
        currency_name = ''Ether'', currency_symbol = ''ETH'', currency_decimals = 18\<rparr>)]"

subsection \<open>Lemmas\<close>

lemma find_chain_Some: "find_chain cs chainId = Some c \<Longrightarrow> chainId = Some (chain_desc_id c)"
  by (auto simp: find_chain_def dest: find_Some_iff [THEN iffD1])

lemma find_chain_None_iff:
  "find_chain cs chainId = None \<longleftrightarrow> list_all (\<lambda>c. Some (chain_desc_id c) \<noteq> chainId) (obj_values cs)"
  by (auto simp: find_chain_def find_None_iff list_all_iff)

lemma find_chain_member:
  "d \<in> set (obj_values cs) \<Longrightarrow> \<exists>c. find_chain cs (Some (chain_desc_id d)) = Some c \<and>
     chain_desc_id c = chain_desc_id d"
  by (cases "find_chain cs (Some (chain_desc_id d))")
     (auto simp: find_chain_None_iff list_all_iff dest: find_chain_Some)

lemma distinct_custom_chain_names: "distinct (map fst custom_chains)"
  by (simp add: custom_chains_def)

lemma custom_in_chains:
  assumes "(n, d) \<in> set custom_chains"
  shows "obj_get (chains allChains) n = Some d"
proof -
  have "distinct (map fst (rev custom_chains))"
    using distinct_custom_chain_names by (simp add: rev_map [symmetric])
  moreover have "(n, d) \<in> set (rev custom_chains)" using assms by simp
  ultimately have "map_of (rev custom_chains) n = Some d" by (rule map_of_is_SomeI)
  then show ?thesis by (simp add: chains_def obj_get_obj_spread)
qed

subsection \<open>Resolution against a catalog\<close>

lemma find_map_snd: "find P (map snd xs) = map_option snd (find (P \<circ> snd) xs)"
  by (induction xs) auto

lemma find_obj_set:
  assumes "find (\<lambda>(k, c). Q c) ob = Some (n, d)" and "m \<noteq> n"
    and "m \<in> set (obj_keys ob) \<Longrightarrow> \<not> Q e"
  shows "find (\<lambda>(k, c). Q c) (obj_set ob m e) = Some (n, d)"
  using assms by (induction ob) (auto simp: obj_keys_def split: if_splits)

lemma find_obj_spread:
  assumes "find (\<lambda>(k, c). Q c) ob = Some (n, d)" and "n \<notin> set (map fst ps)"
    and "distinct (map fst ps)"
    and "list_all (\<lambda>(m, e). Q e \<longrightarrow> m \<notin> set (obj_keys ob)) ps"
  shows "find (\<lambda>(k, c). Q c) (obj_spread ob ps) = Some (n, d)"
  using assms
proof (induction ps arbitrary: ob)
  case Nil
  then show ?case by (simp add: obj_spread_def)
next
  case (Cons p ps)
  obtain m e where p: "p = (m, e)" by (cases p)
  have f: "find (\<lambda>(k, c). Q c) (obj_set ob m e) = Some (n, d)"
    using Cons.prems p by (intro find_obj_set) auto
  have "list_all (\<lambda>(m', e'). Q e' \<longrightarrow> m' \<notin> set (obj_keys (obj_set ob m e))) ps"
    using Cons.prems(3,4) p by (auto simp: list_all_iff) (metis fst_conv image_eqI)+
  then have "find (\<lambda>(k, c). Q c) (obj_spread (obj_set ob m e) ps) = Some (n, d)"
    using Cons.IH [OF f] Cons.prems(2,3) p by simp
  then show ?case by (simp add: p obj_spread_def)
qed

text \<open>
  C14: a chain id that viem's catalog knows resolves to viem's first descriptor with that
  id, whatever keys viem exports, provided the script neither overwrites that
  descriptor's key nor puts a descriptor with the same id under one of viem's keys. So a
  custom descriptor that shares the id under a new key is never used (as \<open>inkMainnet\<close>,
  id 57073, would be when viem exports that id under \<open>ink\<close>).
\<close>

theorem viem_descriptor_first:
  assumes "obj_wf allChains"
    and "find (\<lambda>(k, c). chain_desc_id c = i) allChains = Some (n, d)"
    and "n \<notin> set (map fst custom_chains)"
    and "list_all (\<lambda>(m, e). chain_desc_id e = i \<longrightarrow> m \<notin> set (obj_keys allChains)) custom_chains"
  shows "find_chain (chains allChains) (Some i) = Some d"
proof -
  have "obj_literal allChains = allChains"
    using assms(1) by (simp add: obj_literal_distinct obj_wf_def obj_keys_def)
  then have "find (\<lambda>(k, c). chain_desc_id c = i) (chains allChains) = Some (n, d)"
    using find_obj_spread [OF assms(2,3) distinct_custom_chain_names assms(4)]
    by (simp add: chains_def)
  then have "find (\<lambda>p. chain_desc_id (snd p) = i) (chains allChains) = Some (n, d)"
    by (simp add: split_def)
  then show ?thesis by (simp add: find_chain_def obj_values_def find_map_snd comp_def)
qed

text \<open>
  C15: whatever viem's catalog holds, the id of each of the nine custom descriptors
  resolves to a descriptor with that id, so those chains are never reported as missing.
\<close>

theorem custom_chain_resolves:
  assumes "(n, d) \<in> set custom_chains"
  shows "\<exists>c. find_chain (chains allChains) (Some (chain_desc_id d)) = Some c \<and> chain_desc_id c = chain_desc_id d"
proof -
  have "d \<in> set (obj_values (chains allChains))"
    using custom_in_chains [OF assms] by (rule obj_get_Some_values)
  then show ?thesis by (rule find_chain_member)
qed

theorem viem_descriptor_first_witness:
  "obj_wf example_catalog \<and>
   find (\<lambda>(k, c). chain_desc_id c = 57073) example_catalog = Some (''ink'', the (obj_get example_catalog ''ink'')) \<and>
   find_chain (chains example_catalog) (Some 57073) = Some (the (obj_get example_catalog ''ink'')) \<and>
   the (obj_get example_catalog ''ink'') \<noteq> inkMainnetChain \<and> chain_desc_id inkMainnetChain = 57073"
proof -
  have w: "obj_wf example_catalog" by (simp add: example_catalog_def obj_wf_def obj_keys_def)
  have f: "find (\<lambda>(k, c). chain_desc_id c = 57073) example_catalog =
      Some (''ink'', the (obj_get example_catalog ''ink''))"
    by (simp add: example_catalog_def obj_get_def)
  have n: "''ink'' \<notin> set (map fst custom_chains)" by (simp add: custom_chains_def)
  have k: "list_all (\<lambda>(m, e). chain_desc_id e = 57073 \<longrightarrow> m \<notin> set (obj_keys example_catalog)) custom_chains"
    by (simp add: custom_chains_def example_catalog_def obj_keys_def megaEthTestNetChain_def
        berachainMainnetChain_def bepoliaTestnetChain_def unichainChain_def monadTestnetChain_def
        citreaTestnetChain_def inkMainnetChain_def inkSepoliaChain_def sonicTestnetChain_def)
  show ?thesis using viem_descriptor_first [OF w f n k] w f
    by (simp add: example_catalog_def obj_get_def inkMainnetChain_def)
qed

theorem custom_chain_resolves_witness:
  "(''inkMainnet'', inkMainnetChain) \<in> set custom_chains \<and>
   (\<exists>c. find_chain (chains []) (Some 57073) = Some c \<and> chain_desc_id c = 57073)"
proof -
  have m: "(''inkMainnet'', inkMainnetChain) \<in> set custom_chains" by (simp add: custom_chains_def)
  show ?thesis using custom_chain_resolves [OF m, of "[]"] m by (simp add: inkMainnetChain_def)
qed

end
