(* ===== verification/Validator.thy ===== *)
theory Validator
  imports Prelude JsNumber Versions Interleave Registry Chains
begin

text \<open>
  The validation run of validate-contract-deployments.ts, lines 181--260.

  \<^bold>\<open>Effects.\<close> Every effect of the script is an \<open>action\<close> on a \<open>run_state\<close>:
  the global flag \<open>hasFailed\<close> (line 188), the per-chain flags
  \<open>hasThisChainFailed\<close> (line 223, one closure variable per chain, keyed by the
  chain's key string), the console output, the RPC requests sent, whether an
  uncaught error has ended the process, and \<open>process.exitCode\<close>. \<open>exec_action\<close> is
  the effect of one action; once the process has crashed nothing changes any more.

  \<^bold>\<open>Tasks.\<close> \<open>chain_task\<close> is the async function of lines 190--250 for one key of
  \<open>Object.keys(latestContracts)\<close>, resolved against the RPC responses \<open>rpc_world\<close>
  (what \<open>getChainId\<close> and \<open>getCode\<close> return for each URL; viem's client is not
  modelled beyond that). It is a \<open>chain_plan\<close>: either a fixed action list (the
  chain ends before its contract checks) or a prefix, the per-contract segments
  (lines 224--240, run concurrently) and the final report (lines 244--249).
  \<open>plan_trace\<close> gives the action sequences a plan can produce: the contract segments
  in any interleaving.

  \<^bold>\<open>Runs.\<close> \<open>script_trace\<close> gives every action sequence the whole script can produce:
  module-load failures, the version banner (lines 181--182), the chain tasks in any
  interleaving (line 190), then the summary of lines 252--259. A rejection of
  \<open>getChainId\<close> (line 211 is outside any \<open>try\<close>) rejects \<open>Promise.all\<close>; the
  \<open>.then\<close> callback never runs and Node.js ends the process on the unhandled
  rejection with exit code 1: the action \<open>Reject\<close>.

  \<^bold>\<open>Reference.\<close> \<open>chain_outcome\<close> is the outcome of one chain computed without
  any concurrency, and \<open>expected_result\<close> the run's result from those outcomes.

  \<^bold>\<open>Lemmas.\<close> Lemmas on \<open>exec\<close> (a crashed process stays unchanged, a \<open>Reject\<close>
  anywhere crashes it) and on which actions a trace contains (\<open>chain_trace_member\<close>,
  \<open>script_trace_cases_Reject\<close>). Then the behaviour of one chain task on each branch
  of lines 190--250: error paths, the order of its requests and its report. Then the
  whole run: a rejected \<open>getChainId\<close> or an empty registry crashes it, and
  \<open>hasFailed\<close> is never reset. A small environment (\<open>example_env\<close>, two chains, one
  contract without code) is evaluated by \<open>simp\<close> with the facts \<open>eval_simps\<close> and
  instantiates every result.
\<close>

subsection \<open>Actions and state\<close>

datatype stream = Stdout | Stderr

datatype rpc_request = Get_chain_id | Get_code address

datatype action =
    Set_has_failed
  | Log stream string
  | Send url rpc_request
  | Init_chain_flag string
  | Set_chain_flag string
  | Report_chain string string
  | Reject
  | Summarize

record run_state =
  has_failed :: bool
  chain_failed :: "string \<Rightarrow> bool"
  out :: "(stream \<times> string) list"
  sent :: "(url \<times> rpc_request) list"
  crashed :: bool
  exit_code :: int

definition init_state :: run_state where
  "init_state = \<lparr>has_failed = False, chain_failed = (\<lambda>_. False), out = [], sent = [],
     crashed = False, exit_code = 0\<rparr>"

fun exec_action :: "action \<Rightarrow> run_state \<Rightarrow> run_state" where
  "exec_action a st =
     (if crashed st then st else
      (case a of
         Set_has_failed \<Rightarrow> st\<lparr>has_failed := True\<rparr>
       | Log s m \<Rightarrow> st\<lparr>out := out st @ [(s, m)]\<rparr>
       | Send u r \<Rightarrow> st\<lparr>sent := sent st @ [(u, r)]\<rparr>
       | Init_chain_flag k \<Rightarrow> st\<lparr>chain_failed := (chain_failed st)(k := False)\<rparr>
       | Set_chain_flag k \<Rightarrow> st\<lparr>chain_failed := (chain_failed st)(k := True)\<rparr>
       | Report_chain k name \<Rightarrow>
           (if chain_failed st k
            then st\<lparr>has_failed := True, out := out st @ [(Stderr, name @ '' failed'')]\<rparr>
            else st\<lparr>out := out st @ [(Stdout, name @ '' succeeded'')]\<rparr>)
       | Reject \<Rightarrow> st\<lparr>crashed := True\<rparr>
       | Summarize \<Rightarrow>
           (if has_failed st
            then st\<lparr>out := out st @ [(Stdout, ''''),
                      (Stderr, ''Failed to validate contract deployments'')], exit_code := 1\<rparr>
            else st\<lparr>out := out st @ [(Stdout, ''''),
                      (Stdout, ''Successfully validated contract deployments'')]\<rparr>)))"

declare exec_action.simps [simp del]

definition exec :: "action list \<Rightarrow> run_state \<Rightarrow> run_state" where
  "exec as st = fold exec_action as st"

text \<open>The process's exit status: 1 after an uncaught error, else \<open>process.exitCode\<close>.\<close>

definition process_exit :: "run_state \<Rightarrow> int" where
  "process_exit st = (if crashed st then 1 else exit_code st)"

subsection \<open>RPC responses\<close>

text \<open>\<open>Inl\<close> is a rejected call; \<open>getCode\<close> yields \<open>None\<close> for \<open>undefined\<close> (no code).\<close>

record rpc_world =
  rpc_chain_id :: "url \<Rightarrow> string + int"
  rpc_code :: "url \<Rightarrow> address \<Rightarrow> string + string option"

subsection \<open>One chain (lines 190--250)\<close>

datatype chain_plan =
    Plan_done "action list"
  | Plan_contracts "action list" "action list list" "action list"

text \<open>One contract check after its \<open>getCode\<close> settles (lines 225--239).\<close>

definition contract_check ::
  "rpc_world \<Rightarrow> url \<Rightarrow> chain_desc \<Rightarrow> string \<Rightarrow> string \<times> address \<Rightarrow> action list" where
  "contract_check w u c k nc =
     (case nc of (contractName, contractAddress) \<Rightarrow>
       (case rpc_code w u contractAddress of
          Inl _ \<Rightarrow> [Log Stderr (''RPC Request failed for '' @ chain_name c @ '': '' @ contractName),
                    Set_chain_flag k]
        | Inr None \<Rightarrow> [Log Stderr (chain_name c @ '': '' @ contractName @ '' is not deployed at ''
                        @ contractAddress), Set_chain_flag k]
        | Inr (Some _) \<Rightarrow> []))"

definition chain_task ::
  "rpc_world \<Rightarrow> chain_catalog \<Rightarrow> (int, url) js_obj \<Rightarrow> (int, contracts) js_obj \<Rightarrow> string \<Rightarrow> chain_plan" where
  "chain_task w cs overrides latestContracts chainIdAsString =
     (let chainId = parse_int chainIdAsString;
          contracts = obj_get_str latestContracts chainIdAsString
      in case find_chain cs chainId of
           None \<Rightarrow> Plan_done [Set_has_failed,
                     Log Stderr (''Chain configuration not found for chainId '' @ js_num_opt_to_string chainId)]
         | Some c \<Rightarrow> (case transport_url overrides chainId c of
             None \<Rightarrow> Plan_done [Reject]
           | Some u \<Rightarrow> (case rpc_chain_id w u of
               Inl _ \<Rightarrow> Plan_done [Send u Get_chain_id, Reject]
             | Inr actualChainId \<Rightarrow>
                 (if Some actualChainId \<noteq> chainId
                  then Plan_done [Send u Get_chain_id,
                         Log Stderr (''ChainId mismatch for '' @ chain_name c @ '': ''
                           @ js_int_to_string actualChainId @ '' !== '' @ js_num_opt_to_string chainId),
                         Set_has_failed]
                  else (case contracts of
                    None \<Rightarrow> Plan_done [Send u Get_chain_id, Reject]
                  | Some cts \<Rightarrow>
                      Plan_contracts
                        (Send u Get_chain_id # Init_chain_flag chainIdAsString
                           # map (\<lambda>(_, a). Send u (Get_code a)) cts)
                        (map (contract_check w u c chainIdAsString) cts)
                        [Report_chain chainIdAsString (chain_name c)])))))"

inductive plan_trace :: "chain_plan \<Rightarrow> action list \<Rightarrow> bool" where
  plan_done: "plan_trace (Plan_done as) as"
| plan_contracts: "interleaves segs s \<Longrightarrow> plan_trace (Plan_contracts pre segs post) (pre @ s @ post)"

inductive_cases plan_trace_doneE: "plan_trace (Plan_done as) t"
inductive_cases plan_trace_contractsE: "plan_trace (Plan_contracts pre segs post) t"

subsection \<open>The whole script\<close>

record script_env =
  viem_chains :: chain_catalog
  registry :: deployed_contracts
  world :: rpc_world

definition version_banner :: "string \<Rightarrow> action list" where
  "version_banner v = [Log Stdout (''Testing version '' @ v), Log Stdout '''']"

definition chain_keys :: "(int, contracts) js_obj \<Rightarrow> string list" where
  "chain_keys latestContracts = own_keys_int (obj_keys latestContracts)"

definition chain_tasks ::
  "script_env \<Rightarrow> (int, url) js_obj \<Rightarrow> (int, contracts) js_obj \<Rightarrow> chain_plan list" where
  "chain_tasks env overrides latestContracts =
     map (chain_task (world env) (chains (viem_chains env)) overrides latestContracts)
       (chain_keys latestContracts)"

inductive script_trace :: "script_env \<Rightarrow> action list \<Rightarrow> bool" where
  overrides_fail:
    "rpcUrlOverrides (chains (viem_chains env)) = None \<Longrightarrow> script_trace env [Reject]"
| version_fail:
    "rpcUrlOverrides (chains (viem_chains env)) = Some overrides \<Longrightarrow>
     latest_version (obj_keys (registry env)) = None \<Longrightarrow> script_trace env [Reject]"
| contracts_missing:
    "rpcUrlOverrides (chains (viem_chains env)) = Some overrides \<Longrightarrow>
     latest_version (obj_keys (registry env)) = Some v \<Longrightarrow>
     obj_get (registry env) v = None \<Longrightarrow> script_trace env (version_banner v @ [Reject])"
| run:
    "rpcUrlOverrides (chains (viem_chains env)) = Some overrides \<Longrightarrow>
     latest_version (obj_keys (registry env)) = Some v \<Longrightarrow>
     obj_get (registry env) v = Some latestContracts \<Longrightarrow>
     list_all2 plan_trace (chain_tasks env overrides latestContracts) ts \<Longrightarrow>
     interleaves ts s \<Longrightarrow> script_trace env (version_banner v @ s @ [Summarize])"

subsection \<open>The reference outcome\<close>

datatype contract_outcome = Code_present | Code_missing | Code_rpc_failed

datatype chain_outcome =
    Chain_not_found
  | Chain_no_url
  | Chain_id_rpc_failed
  | Chain_id_mismatch int
  | Chain_contracts_missing
  | Chain_checked "(string \<times> contract_outcome) list"

definition contract_outcome_of :: "rpc_world \<Rightarrow> url \<Rightarrow> address \<Rightarrow> contract_outcome" where
  "contract_outcome_of w u a =
     (case rpc_code w u a of Inl _ \<Rightarrow> Code_rpc_failed | Inr None \<Rightarrow> Code_missing
      | Inr (Some _) \<Rightarrow> Code_present)"

definition chain_outcome ::
  "rpc_world \<Rightarrow> chain_catalog \<Rightarrow> (int, url) js_obj \<Rightarrow> (int, contracts) js_obj \<Rightarrow> string \<Rightarrow> chain_outcome" where
  "chain_outcome w cs overrides latestContracts k =
     (case find_chain cs (parse_int k) of
        None \<Rightarrow> Chain_not_found
      | Some c \<Rightarrow> (case transport_url overrides (parse_int k) c of
          None \<Rightarrow> Chain_no_url
        | Some u \<Rightarrow> (case rpc_chain_id w u of
            Inl _ \<Rightarrow> Chain_id_rpc_failed
          | Inr actual \<Rightarrow>
              (if Some actual \<noteq> parse_int k then Chain_id_mismatch actual
               else (case obj_get_str latestContracts k of
                 None \<Rightarrow> Chain_contracts_missing
               | Some cts \<Rightarrow> Chain_checked
                   (map (\<lambda>(n, a). (n, contract_outcome_of w u a)) cts))))))"

fun chain_crashes :: "chain_outcome \<Rightarrow> bool" where
  "chain_crashes Chain_no_url = True"
| "chain_crashes Chain_id_rpc_failed = True"
| "chain_crashes Chain_contracts_missing = True"
| "chain_crashes _ = False"

fun chain_fails :: "chain_outcome \<Rightarrow> bool" where
  "chain_fails Chain_not_found = True"
| "chain_fails (Chain_id_mismatch _) = True"
| "chain_fails (Chain_checked rs) = list_ex (\<lambda>(_, r). r \<noteq> Code_present) rs"
| "chain_fails _ = False"

datatype run_result = Run_crashed | Run_completed bool

definition expected_result :: "script_env \<Rightarrow> run_result" where
  "expected_result env =
     (case rpcUrlOverrides (chains (viem_chains env)) of
        None \<Rightarrow> Run_crashed
      | Some overrides \<Rightarrow> (case latest_version (obj_keys (registry env)) of
          None \<Rightarrow> Run_crashed
        | Some v \<Rightarrow> (case obj_get (registry env) v of
            None \<Rightarrow> Run_crashed
          | Some lc \<Rightarrow>
              (let outcomes = map (chain_outcome (world env) (chains (viem_chains env)) overrides lc)
                                (chain_keys lc)
               in if list_ex chain_crashes outcomes then Run_crashed
                  else Run_completed (\<not> list_ex chain_fails outcomes)))))"

definition observed_result :: "run_state \<Rightarrow> run_result" where
  "observed_result st = (if crashed st then Run_crashed else Run_completed (\<not> has_failed st))"

text \<open>The registry is well formed: no duplicate keys at the two outer levels.\<close>

definition registry_wf :: "deployed_contracts \<Rightarrow> bool" where
  "registry_wf reg \<longleftrightarrow> obj_wf reg \<and> list_all obj_wf (obj_values reg)"

fun plan_seq :: "chain_plan \<Rightarrow> action list" where
  "plan_seq (Plan_done as) = as"
| "plan_seq (Plan_contracts pre segs post) = pre @ concat segs @ post"

definition example_desc :: "int \<Rightarrow> string \<Rightarrow> chain_desc" where
  "example_desc i n = \<lparr>chain_desc_id = i, chain_name = n, rpc_default_http = [''https://rpc.'' @ n],
     currency_name = ''Ether'', currency_symbol = ''ETH'', currency_decimals = 18\<rparr>"

definition example_overrides :: "(int, url) js_obj" where
  "example_overrides = [(1, ''https://eth.merkle.io''), (56, ''https://bsc-dataseed1.binance.org/''),
     (97, ''https://bsc-testnet-rpc.publicnode.com'')]"

definition example_contracts :: "(int, contracts) js_obj" where
  "example_contracts = [(1, [(''A'', ''0xa'')]), (11155111, [(''A'', ''0xa''), (''B'', ''0xb'')])]"

definition example_env :: script_env where
  "example_env = \<lparr>
     viem_chains = [(''bsc'', example_desc 56 ''bsc''), (''bscTestnet'', example_desc 97 ''bscTestnet''),
                    (''mainnet'', example_desc 1 ''mainnet''), (''sepolia'', example_desc 11155111 ''sepolia'')],
     registry = [(''1.3.0'', example_contracts)],
     world = \<lparr>rpc_chain_id = (\<lambda>u. Inr (if u = ''https://eth.merkle.io'' then 1 else 11155111)),
              rpc_code = (\<lambda>u a. Inr (if a = ''0xb'' then None else Some ''0x60''))\<rparr>\<rparr>"

definition example_trace :: "action list" where
  "example_trace = version_banner ''1.3.0'' @
     concat (map plan_seq (chain_tasks example_env example_overrides example_contracts)) @ [Summarize]"

text \<open>The same catalog and registry, but every RPC request rejects.\<close>

definition example_reject_env :: script_env where
  "example_reject_env = example_env\<lparr>world := \<lparr>rpc_chain_id = (\<lambda>u. Inl ''request timed out''),
     rpc_code = (\<lambda>u a. Inl ''request timed out'')\<rparr>\<rparr>"

text \<open>An endpoint that reports chain id 5 whatever chain it is asked for.\<close>

definition example_mismatch_world :: rpc_world where
  "example_mismatch_world = \<lparr>rpc_chain_id = (\<lambda>u. Inr 5), rpc_code = (\<lambda>u a. Inr (Some ''0x60''))\<rparr>"

definition example_reject_trace :: "action list" where
  "example_reject_trace = version_banner ''1.3.0'' @
     concat (map plan_seq (chain_tasks example_reject_env example_overrides example_contracts)) @ [Summarize]"

text \<open>One run of the task of chain 11155111 in the example.\<close>

definition example_sepolia_trace :: "action list" where
  "example_sepolia_trace = plan_seq (chain_task (world example_env) (chains (viem_chains example_env))
     example_overrides example_contracts ''11155111'')"

subsection \<open>Evaluating the model\<close>

text \<open>
  Facts that evaluate the model on concrete inputs with \<open>simp\<close>, and a small
  environment: a catalog with four chains, a registry with one version and two
  chains, and RPC responses under which contract \<open>B\<close> has no code.
\<close>

lemmas eval_simps = parse_int_def parse_sign_def parse_radix_def is_js_space_def digit_val_def
  digits_to_nat_def js_int_to_string_def dec_string_def dec_digits.simps digit_char_def
  char_of_digit_codes js_num_opt_to_string_def obj_literal_def obj_spread_def obj_get_def
  obj_keys_def obj_values_def own_keys_int_def is_array_index_def obj_get_str_def chain_keys_def
  latest_version_def compare_versions_def parse_version_def is_numeric_segment_def
  find_chain_def transport_url_def rpcUrlOverrides_def chains_def custom_chains_def
  megaEthTestNetChain_def berachainMainnetChain_def bepoliaTestnetChain_def unichainChain_def
  monadTestnetChain_def citreaTestnetChain_def inkMainnetChain_def inkSepoliaChain_def
  sonicTestnetChain_def

lemma plan_trace_seq: "plan_trace p (plan_seq p)"
  by (cases p) (auto intro: plan_trace.intros interleaves_concat)

lemma script_trace_sequential:
  assumes "rpcUrlOverrides (chains (viem_chains env)) = Some ov"
    and "latest_version (obj_keys (registry env)) = Some v"
    and "obj_get (registry env) v = Some lc"
  shows "script_trace env (version_banner v @ concat (map plan_seq (chain_tasks env ov lc)) @ [Summarize])"
proof (rule script_trace.run [OF assms])
  show "list_all2 plan_trace (chain_tasks env ov lc) (map plan_seq (chain_tasks env ov lc))"
    by (simp add: list_all2_map2 list_all2_refl plan_trace_seq)
  show "interleaves (map plan_seq (chain_tasks env ov lc)) (concat (map plan_seq (chain_tasks env ov lc)))"
    by (rule interleaves_concat)
qed

lemma example_overrides_eq: "rpcUrlOverrides (chains (viem_chains example_env)) = Some example_overrides"
  by (simp add: eval_simps example_env_def example_desc_def example_overrides_def)

lemma example_latest: "latest_version (obj_keys (registry example_env)) = Some ''1.3.0''"
  by (simp add: eval_simps example_env_def)

lemma example_lookup: "obj_get (registry example_env) ''1.3.0'' = Some example_contracts"
  by (simp add: eval_simps example_env_def)

lemma example_script_trace: "script_trace example_env example_trace"
  unfolding example_trace_def
  by (rule script_trace_sequential [OF example_overrides_eq example_latest example_lookup])

lemma example_registry_wf: "registry_wf (registry example_env)"
  by (simp add: registry_wf_def obj_wf_def eval_simps example_env_def example_contracts_def)

lemma example_expected: "expected_result example_env = Run_completed False"
  by (simp add: expected_result_def chain_outcome_def contract_outcome_of_def eval_simps
      example_env_def example_desc_def example_contracts_def)

subsection \<open>Lemmas on runs\<close>

lemma exec_Nil [simp]: "exec [] st = st"
  by (simp add: exec_def)

lemma exec_Cons: "exec (a # as) st = exec as (exec_action a st)"
  by (simp add: exec_def)

lemma exec_append: "exec (xs @ ys) st = exec ys (exec xs st)"
  by (simp add: exec_def)

lemma exec_crashed: "crashed st \<Longrightarrow> exec as st = st"
  by (induction as) (simp_all add: exec_Cons exec_action.simps)

lemma crashed_exec_action: "crashed st \<Longrightarrow> crashed (exec_action a st)"
  by (simp add: exec_action.simps)

lemma Reject_crashes: "Reject \<in> set as \<Longrightarrow> crashed (exec as st)"
proof (induction as arbitrary: st)
  case Nil
  then show ?case by simp
next
  case (Cons a as)
  show ?case
  proof (cases "a = Reject")
    case True
    then have "crashed (exec_action a st)" by (simp add: exec_action.simps)
    then show ?thesis by (simp add: exec_Cons exec_crashed)
  next
    case False
    with Cons show ?thesis by (simp add: exec_Cons)
  qed
qed

lemma chain_keys_parse:
  "k \<in> set (chain_keys lc) \<Longrightarrow> \<exists>i. k = js_int_to_string i \<and> i \<in> set (obj_keys lc)"
  by (auto simp: chain_keys_def set_own_keys_int)

lemma parse_chain_key:
  "k \<in> set (chain_keys lc) \<Longrightarrow> \<exists>i. parse_int k = Some i \<and> js_num_opt_to_string (parse_int k) = k \<and>
     i \<in> set (obj_keys lc)"
  by (auto simp: js_num_opt_to_string_def parse_int_js_int_to_string dest!: chain_keys_parse)

lemma interleaves_member: "interleaves ts s \<Longrightarrow> t \<in> set ts \<Longrightarrow> a \<in> set t \<Longrightarrow> a \<in> set s"
  using interleaves_set [of ts s] by auto

lemma plan_trace_member:
  "plan_trace p t \<Longrightarrow> a \<in> set (plan_seq p) \<Longrightarrow> a \<in> set t"
  by (induction rule: plan_trace.induct) (auto intro: interleaves_member)

lemma chain_task_Some_contracts:
  assumes "find_chain cs (parse_int k) = Some c" "transport_url ov (parse_int k) c = Some u"
    "rpc_chain_id w u = Inr i" "parse_int k = Some i" "obj_get_str lc k = Some cts"
  shows "chain_task w cs ov lc k = Plan_contracts
           (Send u Get_chain_id # Init_chain_flag k # map (\<lambda>(_, a). Send u (Get_code a)) cts)
           (map (contract_check w u c k) cts) [Report_chain k (chain_name c)]"
  using assms by (simp add: chain_task_def Let_def)

lemma contract_check_key:
  "b \<in> set (contract_check w u c k nc) \<Longrightarrow> (\<exists>m. b = Log Stderr m) \<or> b = Set_chain_flag k"
  by (cases nc) (auto simp: contract_check_def split: sum.splits option.splits)

subsection \<open>Behaviour of the chain tasks and of the run\<close>

lemma chain_trace_nth:
  assumes "list_all2 plan_trace (chain_tasks env ov lc) ts" "j < length (chain_keys lc)"
  shows "plan_trace (chain_task (world env) (chains (viem_chains env)) ov lc (chain_keys lc ! j)) (ts ! j)"
proof -
  have "j < length (chain_tasks env ov lc)" using assms(2) by (simp add: chain_tasks_def)
  with assms(1) have "plan_trace (chain_tasks env ov lc ! j) (ts ! j)" by (rule list_all2_nthD)
  then show ?thesis using assms(2) by (simp add: chain_tasks_def)
qed

lemma chain_trace_member:
  assumes "list_all2 plan_trace (chain_tasks env ov lc) ts" and "interleaves ts s"
    and "k \<in> set (chain_keys lc)"
    and "a \<in> set (plan_seq (chain_task (world env) (chains (viem_chains env)) ov lc k))"
  shows "a \<in> set s"
proof -
  obtain j where j: "j < length (chain_keys lc)" "chain_keys lc ! j = k"
    using assms(3) by (auto simp: in_set_conv_nth)
  have "length ts = length (chain_tasks env ov lc)" by (rule list_all2_lengthD [OF assms(1), symmetric])
  then have jt: "j < length ts" using j(1) by (simp add: chain_tasks_def)
  have "plan_trace (chain_task (world env) (chains (viem_chains env)) ov lc k) (ts ! j)"
    using chain_trace_nth [OF assms(1) j(1)] j(2) by simp
  then have "a \<in> set (ts ! j)" using assms(4) by (rule plan_trace_member)
  moreover have "ts ! j \<in> set ts" using jt by (rule nth_mem)
  ultimately show ?thesis by (rule interleaves_member [OF assms(2), rotated])
qed

lemma script_trace_cases_Reject:
  assumes "script_trace env t"
  obtains "Reject \<in> set t"
  | ov v lc ts s where "rpcUrlOverrides (chains (viem_chains env)) = Some ov"
      "latest_version (obj_keys (registry env)) = Some v" "obj_get (registry env) v = Some lc"
      "list_all2 plan_trace (chain_tasks env ov lc) ts" "interleaves ts s"
      "t = version_banner v @ s @ [Summarize]"
  using assms
proof (cases rule: script_trace.cases)
  case (run overrides v latestContracts ts s)
  then show ?thesis using that(2) by blast
qed (use that(1) in simp_all)

lemma Reject_exit: "Reject \<in> set t \<Longrightarrow> crashed (exec t st) \<and> process_exit (exec t st) = 1"
  by (simp add: Reject_crashes process_exit_def)

lemma chain_task_contracts_iff:
  "chain_task w cs ov lc k = Plan_contracts pre segs post \<longleftrightarrow>
   (\<exists>c u i cts. find_chain cs (parse_int k) = Some c \<and> transport_url ov (parse_int k) c = Some u \<and>
      rpc_chain_id w u = Inr i \<and> parse_int k = Some i \<and> obj_get_str lc k = Some cts \<and>
      pre = Send u Get_chain_id # Init_chain_flag k # map (\<lambda>(_, a). Send u (Get_code a)) cts \<and>
      segs = map (contract_check w u c k) cts \<and> post = [Report_chain k (chain_name c)])"
  by (auto simp: chain_task_def Let_def split: option.splits sum.splits if_splits)

lemma chain_task_done_Get_code:
  "chain_task w cs ov lc k = Plan_done as \<Longrightarrow> Send u (Get_code a) \<notin> set as"
  by (auto simp: chain_task_def Let_def split: option.splits sum.splits if_splits)

lemma contract_check_no_Send: "Send u r \<notin> set (contract_check w u' c k nc)"
  using contract_check_key by blast

text \<open>
  C3: a rejected \<open>getChainId\<close> call (line 211, outside any \<open>try\<close>) for any chain
  of the tested version crashes the whole run: whatever the interleaving, the process
  ends on the unhandled rejection with exit status 1, and the other chains' results and
  the summary are lost.
\<close>

theorem chain_id_rejection_crashes:
  assumes "script_trace env t"
    and "rpcUrlOverrides (chains (viem_chains env)) = Some ov"
    and "latest_version (obj_keys (registry env)) = Some v"
    and "obj_get (registry env) v = Some lc"
    and "k \<in> set (chain_keys lc)"
    and "find_chain (chains (viem_chains env)) (parse_int k) = Some c"
    and "transport_url ov (parse_int k) c = Some u"
    and "rpc_chain_id (world env) u = Inl e"
  shows "crashed (exec t init_state) \<and> process_exit (exec t init_state) = 1"
  using assms(1)
proof (cases rule: script_trace_cases_Reject)
  case 1
  then show ?thesis by (rule Reject_exit)
next
  case (2 ov' v' lc' ts s)
  then have eq: "ov' = ov" "lc' = lc" using assms(2,3,4) by simp_all
  have "chain_task (world env) (chains (viem_chains env)) ov lc k = Plan_done [Send u Get_chain_id, Reject]"
    using assms(6,7,8) by (simp add: chain_task_def Let_def)
  then have "Reject \<in> set s"
    using chain_trace_member [of env ov lc ts s k Reject] 2 eq assms(5) by simp
  then show ?thesis using 2 by (simp add: Reject_exit)
qed

text \<open>
  C4: when the endpoint reports a chain id other than the key's (lines 213--220), the
  chain task logs the mismatch, sets \<open>hasFailed\<close> and returns: it sends no
  \<open>getCode\<close> request at all and does not crash.
\<close>

theorem mismatch_skips_contracts:
  assumes "find_chain cs (parse_int k) = Some c" and "transport_url ov (parse_int k) c = Some u"
    and "rpc_chain_id w u = Inr i" and "Some i \<noteq> parse_int k"
    and "plan_trace (chain_task w cs ov lc k) t"
  shows "t = [Send u Get_chain_id,
              Log Stderr (''ChainId mismatch for '' @ chain_name c @ '': '' @ js_int_to_string i
                @ '' !== '' @ js_num_opt_to_string (parse_int k)),
              Set_has_failed] \<and> (\<forall>a. Send u (Get_code a) \<notin> set t)"
proof -
  have "chain_task w cs ov lc k = Plan_done [Send u Get_chain_id,
          Log Stderr (''ChainId mismatch for '' @ chain_name c @ '': '' @ js_int_to_string i
            @ '' !== '' @ js_num_opt_to_string (parse_int k)), Set_has_failed]"
    using assms(1-4) by (simp add: chain_task_def Let_def)
  with assms(5) show ?thesis by (auto elim: plan_trace_doneE)
qed

text \<open>
  C7: a \<open>getCode\<close> request of a chain task goes to that chain's transport URL, only
  after its \<open>getChainId\<close> request (the first action of the task) answered the
  expected id, and only for an address of the chain's contract table.
\<close>

theorem get_code_after_match:
  assumes "plan_trace (chain_task w cs ov lc k) t" and "Send u (Get_code a) \<in> set t"
  shows "\<exists>c i cts. find_chain cs (parse_int k) = Some c \<and> transport_url ov (parse_int k) c = Some u \<and>
    rpc_chain_id w u = Inr i \<and> parse_int k = Some i \<and> obj_get_str lc k = Some cts \<and>
    a \<in> snd ` set cts \<and> hd t = Send u Get_chain_id"
  using assms(1)
proof (cases rule: plan_trace.cases)
  case plan_done
  then show ?thesis using assms(2) chain_task_done_Get_code by metis
next
  case (plan_contracts segs s pre post)
  then obtain c u' i cts where c: "find_chain cs (parse_int k) = Some c"
    "transport_url ov (parse_int k) c = Some u'" "rpc_chain_id w u' = Inr i" "parse_int k = Some i"
    "obj_get_str lc k = Some cts"
    "pre = Send u' Get_chain_id # Init_chain_flag k # map (\<lambda>(_, a). Send u' (Get_code a)) cts"
    "segs = map (contract_check w u' c k) cts" "post = [Report_chain k (chain_name c)]"
    by (auto simp: chain_task_contracts_iff)
  have "Send u (Get_code a) \<notin> set s"
    using interleaves_set [OF plan_contracts(3)] c(7) contract_check_no_Send by auto
  then have "u = u' \<and> a \<in> snd ` set cts"
    using assms(2) plan_contracts(2) c(6,8) by (auto split: prod.splits intro: rev_image_eqI)
  with c plan_contracts(2) show ?thesis by auto
qed

text \<open>
  C8: a registry chain with no descriptor in the catalog (lines 199--204) is a recovered
  failure: the task sets \<open>hasFailed\<close> and logs the chain id exactly as the registry key
  spells it, and does nothing else (no crash, no request).
\<close>

theorem not_found_recovered:
  assumes "k \<in> set (chain_keys lc)" and "find_chain cs (parse_int k) = None"
    and "plan_trace (chain_task w cs ov lc k) t"
  shows "t = [Set_has_failed, Log Stderr (''Chain configuration not found for chainId '' @ k)]"
proof -
  have "js_num_opt_to_string (parse_int k) = k" using parse_chain_key [OF assms(1)] by blast
  then have "chain_task w cs ov lc k =
      Plan_done [Set_has_failed, Log Stderr (''Chain configuration not found for chainId '' @ k)]"
    using assms(2) by (simp add: chain_task_def Let_def)
  with assms(3) show ?thesis by (auto elim: plan_trace_doneE)
qed

text \<open>
  C9: a contract whose address has no code (lines 230--235) is reported on stderr by the
  chain's name, the contract's name and its address, in every run of the chain task.
\<close>

theorem missing_contract_logged:
  assumes "find_chain cs (parse_int k) = Some c" and "transport_url ov (parse_int k) c = Some u"
    and "rpc_chain_id w u = Inr i" and "parse_int k = Some i" and "obj_get_str lc k = Some cts"
    and "(n, a) \<in> set cts" and "rpc_code w u a = Inr None"
    and "plan_trace (chain_task w cs ov lc k) t"
  shows "Log Stderr (chain_name c @ '': '' @ n @ '' is not deployed at '' @ a) \<in> set t"
proof -
  have "Log Stderr (chain_name c @ '': '' @ n @ '' is not deployed at '' @ a) \<in> set (contract_check w u c k (n, a))"
    using assms(7) by (simp add: contract_check_def)
  then have "Log Stderr (chain_name c @ '': '' @ n @ '' is not deployed at '' @ a) \<in>
      set (plan_seq (chain_task w cs ov lc k))"
    using assms(6) chain_task_Some_contracts [OF assms(1-5)] by auto
  with assms(8) show ?thesis by (rule plan_trace_member)
qed

text \<open>
  C10: with an empty registry the selected version is \<open>0.0.0\<close>, \<open>latestContracts\<close> is
  \<open>undefined\<close>, and the run ends in a TypeError (exit status 1), after printing
  \<open>Testing version 0.0.0\<close> unless module loading already failed.
\<close>

theorem empty_registry_crashes:
  assumes "script_trace env t" and "registry env = []"
  shows "(t = [Reject] \<or> t = version_banner ''0.0.0'' @ [Reject]) \<and> process_exit (exec t init_state) = 1"
proof -
  have "t = [Reject] \<or> t = version_banner ''0.0.0'' @ [Reject]"
    using assms(1)
  proof (cases rule: script_trace.cases)
    case (contracts_missing overrides v)
    then show ?thesis using assms(2) by (simp add: latest_version_def obj_keys_def)
  next
    case (run overrides v latestContracts ts s)
    then show ?thesis using assms(2) by simp
  qed simp_all
  then show ?thesis by (auto simp: Reject_exit)
qed

text \<open>
  C11: \<open>hasFailed\<close> only ever goes from false to true: once set, no action of any
  task resets it.
\<close>

theorem has_failed_never_reset: "has_failed st \<Longrightarrow> has_failed (exec as st)"
proof (induction as arbitrary: st)
  case Nil
  then show ?case by simp
next
  case (Cons a as)
  have "has_failed (exec_action a st)" using Cons.prems by (cases a) (simp_all add: exec_action.simps)
  with Cons.IH show ?case by (simp add: exec_Cons)
qed

lemma chain_task_done_no_Report:
  "chain_task w cs ov lc k = Plan_done as \<Longrightarrow> Report_chain k' n \<notin> set as"
  by (auto simp: chain_task_def Let_def split: option.splits sum.splits if_splits)

text \<open>
  C12: a chain task emits at most one report line for its chain, and when it does, the
  report is its last action: it comes after every contract check has settled
  (lines 242--249).
\<close>

theorem chain_report_single_last:
  assumes "plan_trace (chain_task w cs ov lc k) t"
  shows "length (filter (\<lambda>a. \<exists>n. a = Report_chain k n) t) \<le> 1 \<and>
    (\<forall>n. Report_chain k n \<in> set t \<longrightarrow> last t = Report_chain k n)"
  using assms
proof (cases rule: plan_trace.cases)
  case plan_done
  then have "\<forall>a\<in>set t. \<not> (\<exists>n. a = Report_chain k n)" using chain_task_done_no_Report by metis
  then show ?thesis by (simp add: filter_empty_conv) (metis plan_done chain_task_done_no_Report)
next
  case (plan_contracts segs s pre post)
  then obtain c u i cts where c:
    "pre = Send u Get_chain_id # Init_chain_flag k # map (\<lambda>(_, a). Send u (Get_code a)) cts"
    "segs = map (contract_check w u c k) cts" "post = [Report_chain k (chain_name c)]"
    by (auto simp: chain_task_contracts_iff)
  have "\<forall>a\<in>set s. \<forall>n. a \<noteq> Report_chain k n"
    using interleaves_set [OF plan_contracts(3)] c(2) contract_check_key by fastforce
  then have "filter (\<lambda>a. \<exists>n. a = Report_chain k n) s = []" by (auto simp: filter_empty_conv)
  moreover have "filter (\<lambda>a. \<exists>n. a = Report_chain k n) pre = []"
    using c(1) by (auto simp: filter_empty_conv split: prod.splits)
  moreover have "Report_chain k n \<in> set t \<Longrightarrow> n = chain_name c" for n
    using plan_contracts(2) c(1,3) \<open>\<forall>a\<in>set s. _\<close> by auto
  ultimately show ?thesis using plan_contracts(2) c(3) by auto
qed

lemma example_key_1: "''1'' \<in> set (chain_keys example_contracts)"
  by (simp add: eval_simps example_contracts_def)

lemma example_key_sepolia: "''11155111'' \<in> set (chain_keys example_contracts)"
  by (simp add: eval_simps example_contracts_def)

lemma example_parse_1: "parse_int ''1'' = Some 1"
  by (simp add: eval_simps)

lemma example_parse_sepolia: "parse_int ''11155111'' = Some 11155111"
  by (simp add: eval_simps)

lemma example_find_1:
  "find_chain (chains (viem_chains example_env)) (Some 1) = Some (example_desc 1 ''mainnet'')"
  by (simp add: eval_simps example_env_def example_desc_def)

lemma example_find_sepolia:
  "find_chain (chains (viem_chains example_env)) (Some 11155111) = Some (example_desc 11155111 ''sepolia'')"
  by (simp add: eval_simps example_env_def example_desc_def)

lemma example_url_1:
  "transport_url example_overrides (Some 1) (example_desc 1 ''mainnet'') = Some ''https://eth.merkle.io''"
  by (simp add: eval_simps example_overrides_def)

lemma example_url_sepolia:
  "transport_url example_overrides (Some 11155111) (example_desc 11155111 ''sepolia'') =
     Some ''https://rpc.sepolia''"
  by (simp add: eval_simps example_overrides_def example_desc_def)

lemma example_contracts_sepolia:
  "obj_get_str example_contracts ''11155111'' = Some [(''A'', ''0xa''), (''B'', ''0xb'')]"
  by (simp add: eval_simps example_contracts_def)

lemma example_sepolia_plan:
  "chain_task (world example_env) (chains (viem_chains example_env)) example_overrides example_contracts
     ''11155111'' = Plan_contracts
       (Send ''https://rpc.sepolia'' Get_chain_id # Init_chain_flag ''11155111'' #
          map (\<lambda>(_, a). Send ''https://rpc.sepolia'' (Get_code a)) [(''A'', ''0xa''), (''B'', ''0xb'')])
       (map (contract_check (world example_env) ''https://rpc.sepolia'' (example_desc 11155111 ''sepolia'') ''11155111'')
          [(''A'', ''0xa''), (''B'', ''0xb'')])
       [Report_chain ''11155111'' (chain_name (example_desc 11155111 ''sepolia''))]"
proof (rule chain_task_Some_contracts)
  show "find_chain (chains (viem_chains example_env)) (parse_int ''11155111'') = Some (example_desc 11155111 ''sepolia'')"
    using example_find_sepolia by (simp add: example_parse_sepolia)
  show "transport_url example_overrides (parse_int ''11155111'') (example_desc 11155111 ''sepolia'') =
      Some ''https://rpc.sepolia''"
    using example_url_sepolia by (simp add: example_parse_sepolia)
  show "rpc_chain_id (world example_env) ''https://rpc.sepolia'' = Inr 11155111" by (simp add: example_env_def)
qed (simp_all add: example_parse_sepolia example_contracts_sepolia)

lemma example_find_none: "find_chain (chains []) (Some 1) = None"
  by (simp add: eval_simps)

theorem chain_id_rejection_crashes_witness:
  "script_trace example_reject_env example_reject_trace \<and>
   ''1'' \<in> set (chain_keys example_contracts) \<and>
   rpc_chain_id (world example_reject_env) ''https://eth.merkle.io'' = Inl ''request timed out'' \<and>
   crashed (exec example_reject_trace init_state) \<and> process_exit (exec example_reject_trace init_state) = 1"
proof -
  have o: "rpcUrlOverrides (chains (viem_chains example_reject_env)) = Some example_overrides"
    using example_overrides_eq by (simp add: example_reject_env_def)
  have l: "latest_version (obj_keys (registry example_reject_env)) = Some ''1.3.0''"
    using example_latest by (simp add: example_reject_env_def)
  have g: "obj_get (registry example_reject_env) ''1.3.0'' = Some example_contracts"
    using example_lookup by (simp add: example_reject_env_def)
  have tr: "script_trace example_reject_env example_reject_trace"
    unfolding example_reject_trace_def by (rule script_trace_sequential [OF o l g])
  have f: "find_chain (chains (viem_chains example_reject_env)) (parse_int ''1'') = Some (example_desc 1 ''mainnet'')"
    using example_find_1 by (simp add: example_reject_env_def example_parse_1)
  have u: "transport_url example_overrides (parse_int ''1'') (example_desc 1 ''mainnet'') = Some ''https://eth.merkle.io''"
    using example_url_1 by (simp add: example_parse_1)
  have e: "rpc_chain_id (world example_reject_env) ''https://eth.merkle.io'' = Inl ''request timed out''"
    by (simp add: example_reject_env_def)
  show ?thesis
    using chain_id_rejection_crashes [OF tr o l g example_key_1 f u e] tr example_key_1 e by blast
qed

theorem mismatch_skips_contracts_witness:
  "rpc_chain_id example_mismatch_world ''https://eth.merkle.io'' = Inr 5 \<and> Some 5 \<noteq> parse_int ''1'' \<and>
   plan_seq (chain_task example_mismatch_world (chains (viem_chains example_env)) example_overrides
     example_contracts ''1'') =
   [Send ''https://eth.merkle.io'' Get_chain_id, Log Stderr ''ChainId mismatch for mainnet: 5 !== 1'',
    Set_has_failed]"
proof -
  have f: "find_chain (chains (viem_chains example_env)) (parse_int ''1'') = Some (example_desc 1 ''mainnet'')"
    using example_find_1 by (simp add: example_parse_1)
  have u: "transport_url example_overrides (parse_int ''1'') (example_desc 1 ''mainnet'') = Some ''https://eth.merkle.io''"
    using example_url_1 by (simp add: example_parse_1)
  have e: "rpc_chain_id example_mismatch_world ''https://eth.merkle.io'' = Inr 5"
    by (simp add: example_mismatch_world_def)
  have n: "Some 5 \<noteq> parse_int ''1''" by (simp add: example_parse_1)
  have "plan_seq (chain_task example_mismatch_world (chains (viem_chains example_env)) example_overrides
     example_contracts ''1'') =
   [Send ''https://eth.merkle.io'' Get_chain_id,
    Log Stderr (''ChainId mismatch for '' @ chain_name (example_desc 1 ''mainnet'') @ '': '' @ js_int_to_string 5
      @ '' !== '' @ js_num_opt_to_string (parse_int ''1'')), Set_has_failed]"
    using mismatch_skips_contracts [OF f u e n plan_trace_seq] by blast
  then show ?thesis using e n by (simp add: example_desc_def example_parse_1 eval_simps)
qed

theorem get_code_after_match_witness:
  "Send ''https://rpc.sepolia'' (Get_code ''0xb'') \<in> set example_sepolia_trace \<and>
   (\<exists>c i cts. find_chain (chains (viem_chains example_env)) (parse_int ''11155111'') = Some c \<and>
     transport_url example_overrides (parse_int ''11155111'') c = Some ''https://rpc.sepolia'' \<and>
     rpc_chain_id (world example_env) ''https://rpc.sepolia'' = Inr i \<and> parse_int ''11155111'' = Some i \<and>
     obj_get_str example_contracts ''11155111'' = Some cts \<and> ''0xb'' \<in> snd ` set cts \<and>
     hd example_sepolia_trace = Send ''https://rpc.sepolia'' Get_chain_id)"
proof -
  have m: "Send ''https://rpc.sepolia'' (Get_code ''0xb'') \<in> set example_sepolia_trace"
    by (simp add: example_sepolia_trace_def example_sepolia_plan)
  have p: "plan_trace (chain_task (world example_env) (chains (viem_chains example_env)) example_overrides
      example_contracts ''11155111'') example_sepolia_trace"
    unfolding example_sepolia_trace_def by (rule plan_trace_seq)
  show ?thesis using get_code_after_match [OF p m] m by blast
qed

theorem not_found_recovered_witness:
  "''1'' \<in> set (chain_keys example_contracts) \<and> find_chain (chains []) (parse_int ''1'') = None \<and>
   plan_seq (chain_task (world example_env) (chains []) example_overrides example_contracts ''1'') =
     [Set_has_failed, Log Stderr ''Chain configuration not found for chainId 1'']"
proof -
  have f: "find_chain (chains []) (parse_int ''1'') = None" by (simp add: example_parse_1 example_find_none)
  show ?thesis
    using not_found_recovered [OF example_key_1 f plan_trace_seq [of "chain_task (world example_env)
      (chains []) example_overrides example_contracts ''1''"]] example_key_1 f by simp
qed

theorem missing_contract_logged_witness:
  "(''B'', ''0xb'') \<in> set [(''A'', ''0xa''), (''B'', ''0xb'')] \<and>
   rpc_code (world example_env) ''https://rpc.sepolia'' ''0xb'' = Inr None \<and>
   Log Stderr ''sepolia: B is not deployed at 0xb'' \<in> set example_sepolia_trace"
proof -
  have f: "find_chain (chains (viem_chains example_env)) (parse_int ''11155111'') =
      Some (example_desc 11155111 ''sepolia'')"
    using example_find_sepolia by (simp add: example_parse_sepolia)
  have u: "transport_url example_overrides (parse_int ''11155111'') (example_desc 11155111 ''sepolia'') =
      Some ''https://rpc.sepolia''"
    using example_url_sepolia by (simp add: example_parse_sepolia)
  have e: "rpc_chain_id (world example_env) ''https://rpc.sepolia'' = Inr 11155111"
    by (simp add: example_env_def)
  have c: "rpc_code (world example_env) ''https://rpc.sepolia'' ''0xb'' = Inr None"
    by (simp add: example_env_def)
  have m: "(''B'', ''0xb'') \<in> set [(''A'', ''0xa''), (''B'', ''0xb'')]" by simp
  have p: "plan_trace (chain_task (world example_env) (chains (viem_chains example_env)) example_overrides
      example_contracts ''11155111'') example_sepolia_trace"
    unfolding example_sepolia_trace_def by (rule plan_trace_seq)
  show ?thesis
    using missing_contract_logged [OF f u e example_parse_sepolia example_contracts_sepolia m c p] m c
    by (simp add: example_desc_def)
qed

theorem empty_registry_crashes_witness:
  "script_trace (example_env\<lparr>registry := []\<rparr>) (version_banner ''0.0.0'' @ [Reject]) \<and>
   process_exit (exec (version_banner ''0.0.0'' @ [Reject]) init_state) = 1"
proof -
  have t: "script_trace (example_env\<lparr>registry := []\<rparr>) (version_banner ''0.0.0'' @ [Reject])"
  proof (rule script_trace.contracts_missing)
    show "rpcUrlOverrides (chains (viem_chains (example_env\<lparr>registry := []\<rparr>))) = Some example_overrides"
      using example_overrides_eq by simp
    show "latest_version (obj_keys (registry (example_env\<lparr>registry := []\<rparr>))) = Some ''0.0.0''"
      by (simp add: latest_version_def obj_keys_def)
    show "obj_get (registry (example_env\<lparr>registry := []\<rparr>)) ''0.0.0'' = None"
      by (simp add: obj_get_def)
  qed
  show ?thesis using empty_registry_crashes [OF t] t by simp
qed

theorem has_failed_never_reset_witness:
  "has_failed (init_state\<lparr>has_failed := True\<rparr>) \<and>
   has_failed (exec [Init_chain_flag ''1'', Report_chain ''1'' ''mainnet'', Summarize]
     (init_state\<lparr>has_failed := True\<rparr>))"
  using has_failed_never_reset [of "init_state\<lparr>has_failed := True\<rparr>"
      "[Init_chain_flag ''1'', Report_chain ''1'' ''mainnet'', Summarize]"] by simp

theorem chain_report_single_last_witness:
  "plan_trace (chain_task (world example_env) (chains (viem_chains example_env)) example_overrides
      example_contracts ''11155111'') example_sepolia_trace \<and>
   last example_sepolia_trace = Report_chain ''11155111'' ''sepolia'' \<and>
   Report_chain ''11155111'' ''sepolia'' \<in> set example_sepolia_trace"
proof -
  have p: "plan_trace (chain_task (world example_env) (chains (viem_chains example_env)) example_overrides
      example_contracts ''11155111'') example_sepolia_trace"
    unfolding example_sepolia_trace_def by (rule plan_trace_seq)
  have m: "Report_chain ''11155111'' ''sepolia'' \<in> set example_sepolia_trace"
    unfolding example_sepolia_trace_def example_sepolia_plan by (simp add: example_desc_def)
  show ?thesis using chain_report_single_last [OF p] p m by blast
qed

end
