(* ===== verification/Refinement.thy ===== *)
theory Refinement
  imports Prelude Interleave Versions Registry Chains Validator
begin

text \<open>
  The concurrent script refines its sequential reference (theory Validator).
  A run's verdict depends only on the flags \<open>hasFailed\<close> and
  \<open>hasThisChainFailed\<close> and on whether the process crashed: \<open>flags\<close> abstracts a
  \<open>run_state\<close> to them and \<open>flag_step\<close> is the abstract effect of an action, with
  \<open>flags (exec_action a st) = flag_step a (flags st)\<close>. Actions of different chains
  touch different per-chain flags (\<open>touches\<close>) and so commute (\<open>indep\<close>); the
  contract checks of one chain only ever set their chain's flag, and commute too.
  By the interleaving lemma of theory Interleave, every interleaving has the flags
  of the sequential run, which is \<open>chain_effect\<close> of each chain's reference outcome
  in turn. The main theorems: the observed result is the reference result, the exit
  status is 0 exactly when every chain validated, all runs of an environment agree,
  and a completed run ends with the summary line.
\<close>

subsection \<open>The flags a run's verdict depends on\<close>

type_synonym flags = "(bool \<times> (string \<Rightarrow> bool)) option"

definition flags :: "run_state \<Rightarrow> flags" where
  "flags st = (if crashed st then None else Some (has_failed st, chain_failed st))"

fun flag_step :: "action \<Rightarrow> flags \<Rightarrow> flags" where
  "flag_step a None = None"
| "flag_step a (Some (hf, cf)) =
     (case a of
        Set_has_failed \<Rightarrow> Some (True, cf)
      | Init_chain_flag k \<Rightarrow> Some (hf, cf(k := False))
      | Set_chain_flag k \<Rightarrow> Some (hf, cf(k := True))
      | Report_chain k _ \<Rightarrow> Some (hf \<or> cf k, cf)
      | Reject \<Rightarrow> None
      | _ \<Rightarrow> Some (hf, cf))"

fun touches :: "action \<Rightarrow> string option" where
  "touches (Init_chain_flag k) = Some k"
| "touches (Set_chain_flag k) = Some k"
| "touches (Report_chain k _) = Some k"
| "touches _ = None"

fun is_set_flag :: "action \<Rightarrow> bool" where
  "is_set_flag (Set_chain_flag _) = True"
| "is_set_flag _ = False"

definition indep :: "action \<Rightarrow> action \<Rightarrow> bool" where
  "indep a b \<longleftrightarrow>
     touches a = None \<or> touches b = None \<or> touches a \<noteq> touches b \<or> (is_set_flag a \<and> is_set_flag b)"

fun chain_effect :: "chain_outcome \<Rightarrow> string \<Rightarrow> flags \<Rightarrow> flags" where
  "chain_effect o' k None = None"
| "chain_effect o' k (Some (hf, cf)) =
     (if chain_crashes o' then None
      else Some (hf \<or> chain_fails o',
                 case o' of Chain_checked _ \<Rightarrow> cf(k := chain_fails o') | _ \<Rightarrow> cf))"

definition expected_verdict :: "script_env \<Rightarrow> bool option" where
  "expected_verdict env =
     (case expected_result env of Run_crashed \<Rightarrow> None | Run_completed ok \<Rightarrow> Some (\<not> ok))"

subsection \<open>Lemmas\<close>

lemma flags_exec_action: "flags (exec_action a st) = flag_step a (flags st)"
  by (cases a) (simp_all add: flags_def exec_action.simps)

lemma flags_exec: "flags (exec as st) = fold flag_step as (flags st)"
  by (induction as arbitrary: st) (simp_all add: exec_def flags_exec_action)

lemma fun_upd_same_value_commute: "f(a := v, b := v) = f(b := v, a := v)"
  by (auto simp: fun_eq_iff)

lemma indep_commute:
  assumes "indep a b"
  shows "flag_step b (flag_step a x) = flag_step a (flag_step b x)"
proof (cases x)
  case None
  then show ?thesis by simp
next
  case (Some p)
  obtain hf cf where p: "p = (hf, cf)" by (cases p)
  show ?thesis
    using assms unfolding Some p indep_def
    by (cases a; cases b) (auto simp: fun_upd_twist fun_upd_same_value_commute)
qed

lemma tasks_commute_all:
  assumes "list_all (list_all P) ts" and "\<And>a b. P a \<Longrightarrow> P b \<Longrightarrow> C a b"
  shows "tasks_commute C ts"
  using assms(1) by (induction ts) (auto simp: list_all_iff assms(2))

lemma fold_flag_step_None [simp]: "fold flag_step as None = None"
  by (induction as) simp_all

lemma fold_flag_step_Send: "fold flag_step (map (\<lambda>(_, a). Send u (Get_code a)) cts) x = x"
proof (induction cts arbitrary: x)
  case Nil
  then show ?case by simp
next
  case (Cons p cts)
  obtain n a where "p = (n, a)" by (cases p)
  with Cons show ?case by (cases x) auto
qed

lemma fold_flag_step_contract_check:
  "fold flag_step (contract_check w u c k (n, a)) (Some (hf, cf)) =
     Some (hf, if contract_outcome_of w u a \<noteq> Code_present then cf(k := True) else cf)"
  by (simp add: contract_check_def contract_outcome_of_def split: sum.splits option.splits)

lemma fold_flag_step_contract_checks:
  "fold flag_step (concat (map (contract_check w u c k) cts)) (Some (hf, cf)) =
     Some (hf, if list_ex (\<lambda>(n, a). contract_outcome_of w u a \<noteq> Code_present) cts
               then cf(k := True) else cf)"
proof (induction cts arbitrary: cf)
  case Nil
  then show ?case by simp
next
  case (Cons p cts)
  obtain n a where p: "p = (n, a)" by (cases p)
  show ?case
    using Cons.IH by (simp add: p fold_flag_step_contract_check)
qed

lemma contract_check_actions:
  "b \<in> set (contract_check w u c k nc) \<Longrightarrow> touches b = None \<or> is_set_flag b"
  by (auto dest: contract_check_key)

lemma contract_checks_commute: "tasks_commute indep (map (contract_check w u c k) cts)"
proof (rule tasks_commute_all [where P = "\<lambda>b. touches b = None \<or> is_set_flag b"])
  show "list_all (list_all (\<lambda>b. touches b = None \<or> is_set_flag b)) (map (contract_check w u c k) cts)"
    by (auto simp: list_all_iff dest: contract_check_actions)
next
  fix a b :: action
  assume "touches a = None \<or> is_set_flag a" and "touches b = None \<or> is_set_flag b"
  then show "indep a b" by (auto simp: indep_def)
qed

lemma fold_flag_step_interleaves:
  assumes "interleaves ts s" and "tasks_commute indep ts"
  shows "fold flag_step s x = fold flag_step (concat ts) x"
  using fold_obs_interleaves [of ts s id flag_step indep, OF assms(1) _ _ assms(2)] indep_commute
  by simp

lemma contracts_plan_effect:
  assumes "interleaves (map (contract_check w u c k) cts) s"
  shows "fold flag_step ((Send u Get_chain_id # Init_chain_flag k # map (\<lambda>(_, a). Send u (Get_code a)) cts)
            @ s @ [Report_chain k n]) x =
         chain_effect (Chain_checked (map (\<lambda>(n, a). (n, contract_outcome_of w u a)) cts)) k x"
proof (cases x)
  case None
  then show ?thesis by simp
next
  case (Some p)
  obtain hf cf where p: "x = Some (hf, cf)" using Some by (cases p) auto
  have s: "fold flag_step s y = fold flag_step (concat (map (contract_check w u c k) cts)) y" for y
    by (rule fold_flag_step_interleaves [OF assms contract_checks_commute])
  have ex: "list_ex (\<lambda>(_, r). r \<noteq> Code_present) (map (\<lambda>(n, a). (n, contract_outcome_of w u a)) cts) =
            list_ex (\<lambda>(n, a). contract_outcome_of w u a \<noteq> Code_present) cts"
    by (induction cts) auto
  show ?thesis
    by (simp add: p s fold_flag_step_Send fold_flag_step_contract_checks ex fun_eq_iff)
qed

lemma chain_task_done:
  "chain_task w cs ov lc k = Plan_done as \<Longrightarrow>
   fold flag_step as x = chain_effect (chain_outcome w cs ov lc k) k x"
  by (cases x) (auto simp: chain_task_def chain_outcome_def Let_def split: option.splits sum.splits if_splits)

lemma chain_task_contracts:
  "chain_task w cs ov lc k = Plan_contracts pre segs post \<Longrightarrow>
   \<exists>c u cts. pre = Send u Get_chain_id # Init_chain_flag k # map (\<lambda>(_, a). Send u (Get_code a)) cts \<and>
     segs = map (contract_check w u c k) cts \<and> post = [Report_chain k (chain_name c)] \<and>
     chain_outcome w cs ov lc k = Chain_checked (map (\<lambda>(n, a). (n, contract_outcome_of w u a)) cts)"
  by (auto simp: chain_task_def chain_outcome_def Let_def split: option.splits sum.splits if_splits)
     blast

lemma plan_effect:
  assumes "plan_trace (chain_task w cs ov lc k) t"
  shows "fold flag_step t x = chain_effect (chain_outcome w cs ov lc k) k x"
  using assms
proof (cases rule: plan_trace.cases)
  case plan_done
  then show ?thesis by (simp add: chain_task_done)
next
  case (plan_contracts segs s pre post)
  then obtain c u cts where
    "pre = Send u Get_chain_id # Init_chain_flag k # map (\<lambda>(_, a). Send u (Get_code a)) cts"
    "segs = map (contract_check w u c k) cts" "post = [Report_chain k (chain_name c)]"
    "chain_outcome w cs ov lc k = Chain_checked (map (\<lambda>(n, a). (n, contract_outcome_of w u a)) cts)"
    using chain_task_contracts by metis
  with plan_contracts contracts_plan_effect [of w u c k cts s "chain_name c" x] show ?thesis
    by simp
qed

subsection \<open>The whole run\<close>

lemma plan_touches:
  assumes "plan_trace (chain_task w cs ov lc k) t"
  shows "list_all (\<lambda>a. a \<noteq> Summarize \<and> (touches a = None \<or> touches a = Some k)) t"
  using assms
proof (cases rule: plan_trace.cases)
  case plan_done
  then show ?thesis
    by (auto simp: chain_task_def Let_def list_all_iff split: option.splits sum.splits if_splits)
next
  case (plan_contracts segs s pre post)
  then obtain c u cts where
    "pre = Send u Get_chain_id # Init_chain_flag k # map (\<lambda>(_, a). Send u (Get_code a)) cts"
    "segs = map (contract_check w u c k) cts" "post = [Report_chain k (chain_name c)]"
    using chain_task_contracts by metis
  moreover have "set s = set (concat segs)" using interleaves_set plan_contracts by blast
  ultimately have "\<forall>b\<in>set s. (\<exists>m. b = Log Stderr m) \<or> b = Set_chain_flag k"
    by (auto dest: contract_check_key)
  then have "list_all (\<lambda>a. a \<noteq> Summarize \<and> (touches a = None \<or> touches a = Some k)) s"
    by (auto simp: list_all_iff)
  with plan_contracts \<open>pre = _\<close> \<open>post = _\<close> show ?thesis by (auto simp: list_all_iff)
qed

lemma plan_touches_key:
  "plan_trace (chain_task w cs ov lc k) t \<Longrightarrow> list_all (\<lambda>a. touches a = None \<or> touches a = Some k) t"
  using plan_touches [of w cs ov lc k t] by (simp add: list_all_iff)

lemma plan_no_Summarize: "plan_trace (chain_task w cs ov lc k) t \<Longrightarrow> Summarize \<notin> set t"
  using plan_touches [of w cs ov lc k t] by (auto simp: list_all_iff)

lemma tasks_commute_keys:
  assumes "list_all2 (\<lambda>k t. list_all (\<lambda>a. touches a = None \<or> touches a = Some k) t) ks ts"
    and "distinct ks"
  shows "tasks_commute indep ts"
  using assms
proof (induction ks ts rule: list_all2_induct)
  case Nil
  then show ?case by simp
next
  case (Cons k ks t ts)
  have tb_all: "list_all (\<lambda>b. touches b = None \<or> touches b \<in> Some ` set ks) (concat ts)"
    using Cons.hyps(2) by (induction ks ts rule: list_all2_induct) (fastforce simp: list_all_iff)+
  have "list_all (\<lambda>a. list_all (indep a) (concat ts)) t"
  proof (unfold list_all_iff, intro ballI)
    fix a b
    assume a: "a \<in> set t" and b: "b \<in> set (concat ts)"
    from a Cons.hyps(1) have ta: "touches a = None \<or> touches a = Some k" by (simp add: list_all_iff)
    from b tb_all have tb: "touches b = None \<or> touches b \<in> Some ` set ks"
      unfolding list_all_iff by blast
    from Cons.prems have "k \<notin> set ks" by simp
    with ta tb show "indep a b" by (auto simp: indep_def)
  qed
  with Cons.IH Cons.prems show ?case by simp
qed

lemma fold_concat_effects:
  assumes "list_all2 (\<lambda>k t. \<forall>x. fold flag_step t x = chain_effect (g k) k x) ks ts"
  shows "fold flag_step (concat ts) x = fold (\<lambda>k. chain_effect (g k) k) ks x"
  using assms by (induction ks ts arbitrary: x rule: list_all2_induct) simp_all

lemma fold_chain_effect_None [simp]: "fold (\<lambda>k. chain_effect (g k) k) ks None = None"
  by (induction ks) simp_all

lemma verdict_effects:
  "map_option fst (fold (\<lambda>k. chain_effect (g k) k) ks (Some (hf, cf))) =
     (if list_ex (\<lambda>k. chain_crashes (g k)) ks then None
      else Some (hf \<or> list_ex (\<lambda>k. chain_fails (g k)) ks))"
proof (induction ks arbitrary: hf cf)
  case Nil
  then show ?case by simp
next
  case (Cons k ks)
  then show ?case by (auto split: chain_outcome.splits)
qed

lemma fold_flag_step_banner [simp]: "fold flag_step (version_banner v) x = x"
  by (cases x) (auto simp: version_banner_def)

lemma observed_result_flags:
  "observed_result st = (case flags st of None \<Rightarrow> Run_crashed | Some (hf, _) \<Rightarrow> Run_completed (\<not> hf))"
  by (simp add: observed_result_def flags_def)

lemma flags_init: "flags init_state = Some (False, \<lambda>_. False)"
  by (simp add: flags_def init_state_def)

lemma observed_fold:
  "observed_result (exec t init_state) =
     (case map_option fst (fold flag_step t (Some (False, \<lambda>_. False))) of
        None \<Rightarrow> Run_crashed | Some hf \<Rightarrow> Run_completed (\<not> hf))"
  by (simp add: observed_result_flags flags_exec flags_init split: option.splits)

lemma registry_wf_keys:
  "registry_wf reg \<Longrightarrow> obj_get reg v = Some lc \<Longrightarrow> distinct (chain_keys lc)"
  by (auto simp: registry_wf_def chain_keys_def list_all_iff obj_wf_def
      intro!: distinct_own_keys_int dest: obj_get_Some_values)

lemma run_verdict:
  assumes "list_all2 plan_trace (chain_tasks env overrides lc) ts" and "interleaves ts s"
    and "distinct (chain_keys lc)"
  shows "map_option fst (fold flag_step s (Some (False, \<lambda>_. False))) =
    (let outcomes = map (chain_outcome (world env) (chains (viem_chains env)) overrides lc) (chain_keys lc)
     in if list_ex chain_crashes outcomes then None else Some (list_ex chain_fails outcomes))"
proof -
  let ?g = "chain_outcome (world env) (chains (viem_chains env)) overrides lc"
  let ?ks = "chain_keys lc"
  have all2: "list_all2 (\<lambda>k t. plan_trace (chain_task (world env) (chains (viem_chains env)) overrides lc k) t) ?ks ts"
    using assms(1) by (simp add: chain_tasks_def list_all2_map1)
  have "list_all2 (\<lambda>k t. list_all (\<lambda>a. touches a = None \<or> touches a = Some k) t) ?ks ts"
    using all2 by (rule list_all2_mono) (rule plan_touches_key)
  then have comm: "tasks_commute indep ts" using assms(3) by (rule tasks_commute_keys)
  have eff: "list_all2 (\<lambda>k t. \<forall>x. fold flag_step t x = chain_effect (?g k) k x) ?ks ts"
    using all2 by (rule list_all2_mono) (simp add: plan_effect)
  have "fold flag_step s (Some (False, \<lambda>_. False)) = fold (\<lambda>k. chain_effect (?g k) k) ?ks (Some (False, \<lambda>_. False))"
    using fold_flag_step_interleaves [OF assms(2) comm] fold_concat_effects [OF eff] by simp
  then show ?thesis by (simp add: verdict_effects list_ex_iff)
qed

lemma script_trace_verdict:
  assumes "script_trace env t" and "registry_wf (registry env)"
  shows "map_option fst (fold flag_step t (Some (False, \<lambda>_. False))) = expected_verdict env"
  using assms(1)
proof (cases rule: script_trace.cases)
  case overrides_fail
  then show ?thesis by (simp add: expected_verdict_def expected_result_def)
next
  case (version_fail overrides)
  then show ?thesis by (simp add: expected_verdict_def expected_result_def)
next
  case (contracts_missing overrides v)
  then show ?thesis by (simp add: expected_verdict_def expected_result_def)
next
  case (run overrides v lc ts s)
  have "distinct (chain_keys lc)" using assms(2) run(4) by (rule registry_wf_keys)
  with run_verdict [OF run(5,6)] run show ?thesis
    by (cases "fold flag_step s (Some (False, \<lambda>_. False))")
       (auto simp: expected_verdict_def expected_result_def Let_def split: if_splits)
qed

lemma exit_code_exec:
  "Summarize \<notin> set as \<Longrightarrow> exit_code (exec as st) = exit_code st"
proof (induction as arbitrary: st)
  case Nil
  then show ?case by (simp add: exec_def)
next
  case (Cons a as)
  have "exit_code (exec_action a st) = exit_code st"
    using Cons.prems by (cases a) (simp_all add: exec_action.simps)
  with Cons show ?case by (simp add: exec_def)
qed

lemma chain_traces_no_Summarize:
  assumes "list_all2 plan_trace (chain_tasks env overrides lc) ts" and "interleaves ts s"
  shows "Summarize \<notin> set s"
proof -
  have "list_all2 (\<lambda>k t. plan_trace (chain_task (world env) (chains (viem_chains env)) overrides lc k) t)
          (chain_keys lc) ts"
    using assms(1) by (simp add: chain_tasks_def list_all2_map1)
  then have "list_all (\<lambda>t. Summarize \<notin> set t) ts"
    by (induction rule: list_all2_induct) (simp_all add: plan_no_Summarize)
  then show ?thesis using interleaves_set [OF assms(2)] by (auto simp: list_all_iff)
qed

lemma process_exit_Summarize:
  "exit_code st = 0 \<Longrightarrow>
   process_exit (exec_action Summarize st) =
     (case map_option fst (flags (exec_action Summarize st)) of Some False \<Rightarrow> 0 | _ \<Rightarrow> 1)"
  by (simp add: exec_action.simps process_exit_def flags_def)

lemma process_exit_crashed: "flags st = None \<Longrightarrow> process_exit st = 1"
  by (simp add: flags_def process_exit_def split: if_splits)

lemma exit_code_init_run:
  "Summarize \<notin> set s \<Longrightarrow> exit_code (exec (version_banner v @ s) init_state) = 0"
  by (simp add: exit_code_exec version_banner_def init_state_def)

lemma process_exit_verdict:
  assumes "script_trace env t" and "registry_wf (registry env)"
  shows "process_exit (exec t init_state) = (case expected_verdict env of Some False \<Rightarrow> 0 | _ \<Rightarrow> 1)"
proof -
  have v: "map_option fst (flags (exec t init_state)) = expected_verdict env"
    using script_trace_verdict [OF assms] by (simp add: flags_exec flags_init)
  show ?thesis
    using assms(1)
  proof (cases rule: script_trace.cases)
    case (run overrides v lc ts s)
    have "Summarize \<notin> set s" using run(5,6) by (rule chain_traces_no_Summarize)
    then have "exit_code (exec (version_banner v @ s) init_state) = 0" by (rule exit_code_init_run)
    moreover have "exec t init_state = exec_action Summarize (exec (version_banner v @ s) init_state)"
      using run(1) by (simp add: exec_def)
    ultimately have "process_exit (exec t init_state) =
        (case map_option fst (flags (exec t init_state)) of Some False \<Rightarrow> 0 | _ \<Rightarrow> 1)"
      using process_exit_Summarize by simp
    then show ?thesis using v by simp
  qed (use v in \<open>auto simp: expected_verdict_def expected_result_def process_exit_crashed
         split: option.splits\<close>)
qed

text \<open>
  C1: whatever the interleaving of the chain tasks and of their contract checks,
  a run of the script ends crashed exactly when the reference says a chain crashes
  (or module loading fails), and otherwise reports success exactly when no chain
  failed: the concurrent script refines the sequential reference.
\<close>

theorem run_refines_reference:
  assumes "script_trace env t" and "registry_wf (registry env)"
  shows "observed_result (exec t init_state) = expected_result env"
  using script_trace_verdict [OF assms]
  by (auto simp: observed_fold expected_verdict_def split: run_result.splits option.splits)

text \<open>
  C2: the process exits with status 0 exactly when the reference run completes with
  every chain validated, and with status 1 otherwise (a failed chain, a failed
  contract, or a crash), for every interleaving of the concurrent checks.
\<close>

theorem exit_status:
  assumes "script_trace env t" and "registry_wf (registry env)"
  shows "process_exit (exec t init_state) = (if expected_result env = Run_completed True then 0 else 1)"
  using process_exit_verdict [OF assms]
  by (auto simp: expected_verdict_def split: run_result.splits bool.splits)

text \<open>
  C6: a run that completes ends with the summary of lines 253--259: its last output line
  is \<open>Successfully validated contract deployments\<close> on stdout when every chain
  validated, and \<open>Failed to validate contract deployments\<close> on stderr otherwise.
\<close>

theorem summary_last_line:
  assumes "script_trace env t" and "registry_wf (registry env)"
    and "expected_result env = Run_completed ok"
  shows "last (out (exec t init_state)) =
    (if ok then (Stdout, ''Successfully validated contract deployments'')
     else (Stderr, ''Failed to validate contract deployments''))"
proof -
  have v: "map_option fst (flags (exec t init_state)) = Some (\<not> ok)"
    using script_trace_verdict [OF assms(1,2)] assms(3)
    by (simp add: flags_exec flags_init expected_verdict_def)
  show ?thesis
    using assms(1)
  proof (cases rule: script_trace_cases_Reject)
    case 1
    then have "flags (exec t init_state) = None" by (simp add: Reject_exit flags_def)
    with v show ?thesis by simp
  next
    case (2 ov v' lc ts s)
    let ?st = "exec (version_banner v' @ s) init_state"
    have t: "exec t init_state = exec_action Summarize ?st" using 2(6) by (simp add: exec_def)
    have "flags ?st = flags (exec t init_state)"
      using t by (cases "flags ?st") (auto simp: flags_exec_action)
    with v have "\<not> crashed ?st \<and> has_failed ?st = (\<not> ok)" by (auto simp: flags_def split: if_splits)
    with t show ?thesis by (simp add: exec_action.simps)
  qed
qed

text \<open>
  C5: the report line of a chain whose contracts were checked (lines 244--249) is the last
  output of its task and says \<open>failed\<close> on stderr exactly when some contract has no code or
  its \<open>getCode\<close> request failed, and \<open>succeeded\<close> on stdout otherwise, whatever order the
  checks settled in; the chain's failure is added to \<open>hasFailed\<close> and nothing else
  changes it.
\<close>

theorem chain_report_line:
  assumes "find_chain cs (parse_int k) = Some c" and "transport_url ov (parse_int k) c = Some u"
    and "rpc_chain_id w u = Inr i" and "parse_int k = Some i" and "obj_get_str lc k = Some cts"
    and "plan_trace (chain_task w cs ov lc k) t" and "\<not> crashed st"
  shows "last (out (exec t st)) =
      (if list_ex (\<lambda>(n, a). contract_outcome_of w u a \<noteq> Code_present) cts
       then (Stderr, chain_name c @ '' failed'') else (Stdout, chain_name c @ '' succeeded'')) \<and>
    has_failed (exec t st) = (has_failed st \<or> list_ex (\<lambda>(n, a). contract_outcome_of w u a \<noteq> Code_present) cts)"
proof -
  let ?ex = "list_ex (\<lambda>(n, a). contract_outcome_of w u a \<noteq> Code_present) cts"
  let ?pre = "Send u Get_chain_id # Init_chain_flag k # map (\<lambda>(_, a). Send u (Get_code a)) cts"
  obtain s where s: "interleaves (map (contract_check w u c k) cts) s"
    "t = ?pre @ s @ [Report_chain k (chain_name c)]"
    using assms(6) chain_task_Some_contracts [OF assms(1-5)] by (auto elim: plan_trace_contractsE)
  let ?st = "exec (?pre @ s) st"
  have f: "flags st = Some (has_failed st, chain_failed st)" using assms(7) by (simp add: flags_def)
  have "flags ?st = Some (has_failed st, (chain_failed st)(k := ?ex))"
    by (simp add: flags_exec f fold_flag_step_Send fold_flag_step_interleaves [OF s(1) contract_checks_commute]
        fold_flag_step_contract_checks)
  then have "\<not> crashed ?st" "has_failed ?st = has_failed st" "chain_failed ?st k = ?ex"
    by (auto simp: flags_def split: if_splits)
  moreover have "exec t st = exec_action (Report_chain k (chain_name c)) ?st"
    using s(2) by (simp add: exec_def)
  ultimately show ?thesis by (simp add: exec_action.simps)
qed

theorem run_refines_reference_witness:
  "script_trace example_env example_trace \<and> registry_wf (registry example_env) \<and>
   observed_result (exec example_trace init_state) = Run_completed False"
  using run_refines_reference [OF example_script_trace example_registry_wf]
    example_script_trace example_registry_wf example_expected by simp

theorem exit_status_witness:
  "script_trace example_env example_trace \<and> registry_wf (registry example_env) \<and>
   process_exit (exec example_trace init_state) = 1"
  using exit_status [OF example_script_trace example_registry_wf]
    example_script_trace example_registry_wf example_expected by simp

theorem summary_last_line_witness:
  "script_trace example_env example_trace \<and> registry_wf (registry example_env) \<and>
   expected_result example_env = Run_completed False \<and>
   last (out (exec example_trace init_state)) = (Stderr, ''Failed to validate contract deployments'')"
  using summary_last_line [OF example_script_trace example_registry_wf example_expected]
    example_script_trace example_registry_wf example_expected by simp

theorem chain_report_line_witness:
  "rpc_code (world example_env) ''https://rpc.sepolia'' ''0xb'' = Inr None \<and>
   last (out (exec example_sepolia_trace init_state)) = (Stderr, ''sepolia failed'') \<and>
   has_failed (exec example_sepolia_trace init_state)"
proof -
  have f: "find_chain (chains (viem_chains example_env)) (parse_int ''11155111'') =
      Some (example_desc 11155111 ''sepolia'')"
    using example_find_sepolia by (simp add: example_parse_sepolia)
  have u: "transport_url example_overrides (parse_int ''11155111'') (example_desc 11155111 ''sepolia'') =
      Some ''https://rpc.sepolia''"
    using example_url_sepolia by (simp add: example_parse_sepolia)
  have e: "rpc_chain_id (world example_env) ''https://rpc.sepolia'' = Inr 11155111"
    by (simp add: example_env_def)
  have p: "plan_trace (chain_task (world example_env) (chains (viem_chains example_env)) example_overrides
      example_contracts ''11155111'') example_sepolia_trace"
    unfolding example_sepolia_trace_def by (rule plan_trace_seq)
  have n: "\<not> crashed init_state" by (simp add: init_state_def)
  show ?thesis
    using chain_report_line [OF f u e example_parse_sepolia example_contracts_sepolia p n]
    by (simp add: example_desc_def contract_outcome_of_def example_env_def)
qed

end
