(* ===== verification/Spec2Isabelle.thy ===== *)
theory Spec2Isabelle
  imports Prelude JsNumber Versions Interleave Registry Chains Validator Refinement
begin

text \<open>
  \<^bold>\<open>Verification of the delegation-deployments package.\<close>

  \<^bold>\<open>The program.\<close> src/packages/delegation-deployments has two parts. The
  registry (src/index.ts) is data: \<open>CHAIN_ID\<close> names chain ids, and
  \<open>DELEGATOR_CONTRACTS\<close> maps a version to a chain id to a contract name to an address,
  built from three deployment tables of a sibling module. The validator
  (script/validate-contract-deployments.ts) is a one-shot script. It defines nine chain
  descriptors and spreads viem's chain catalog with them (\<open>chains\<close>), and builds an
  RPC override table. It then selects the highest registry version with
  \<open>compareVersions\<close> and launches one async task per chain id of that version. Each
  task resolves the chain, checks the endpoint's chain id and, concurrently, the code at
  every contract address. It reports per chain through the flags \<open>hasFailed\<close> and
  \<open>hasThisChainFailed\<close>. A final callback prints a summary and sets the exit code.

  \<^bold>\<open>Theories.\<close>
  \<^item> Prelude: JavaScript objects as association lists in property order (\<open>obj_set\<close>,
    \<open>obj_spread\<close> for \<open>{...o, k: v}\<close>, \<open>obj_literal\<close>, \<open>obj_get\<close>, \<open>obj_keys\<close>,
    \<open>obj_values\<close>) and their lookup lemmas.
  \<^item> JsNumber: \<open>String(n)\<close> (\<open>js_int_to_string\<close>) and \<open>parseInt\<close> without radix
    (\<open>parse_int\<close>, line 191), with the round trip between them.
  \<^item> Versions: the reduce of lines 171--179 (\<open>latest_version\<close>), with
    \<open>compareVersions\<close> of the compare-versions package modelled from its documented
    behaviour (\<open>compare_versions\<close>, \<open>parse_version\<close>, \<open>cmp_segments\<close>).
  \<^item> Registry: \<open>CHAIN_ID\<close> and \<open>DELEGATOR_CONTRACTS\<close> of src/index.ts as functions of the
    three deployment tables, and \<open>Object.keys\<close> on numeric keys (\<open>own_keys_int\<close>).
  \<^item> Chains: the nine descriptors, \<open>chains\<close>, \<open>rpcUrlOverrides\<close>, \<open>find_chain\<close> (line 197)
    and \<open>transport_url\<close> (line 195), for any viem catalog.
  \<^item> Interleave: interleavings of task traces (\<open>merge2\<close>, \<open>interleaves\<close>) and the lemma
    that commuting steps make every interleaving equal to the sequential run.
  \<^item> Validator: the effects of the script as \<open>action\<close>s on a \<open>run_state\<close>
    (\<open>exec_action\<close>); one chain task (lines 190--250) as a \<open>chain_plan\<close> (\<open>chain_task\<close>,
    \<open>contract_check\<close>); the traces of a task (\<open>plan_trace\<close>) and of the whole script
    (\<open>script_trace\<close>); and a sequential reference outcome (\<open>chain_outcome\<close>,
    \<open>expected_result\<close>).
  \<^item> Refinement: the abstraction of a run state to its flags (\<open>flags\<close>, \<open>flag_step\<close>)
    and the proof that every trace refines the reference.

  \<^bold>\<open>Concurrency.\<close> Node.js runs the code between two \<open>await\<close>s of a task without
  interruption. A run of the script is therefore one interleaving of the tasks' action
  sequences. \<open>script_trace\<close> admits every interleaving of the chain tasks, and within
  each task every interleaving of its contract checks. RPC answers are a parameter
  (\<open>rpc_world\<close>: what \<open>getChainId\<close> and \<open>getCode\<close> return or reject with, per URL).

  \<^bold>\<open>Results.\<close>
  \<^item> Runs (Refinement): for every interleaving, the run ends with the reference
    result and exit status (\<open>run_refines_reference\<close>, \<open>exit_status\<close>). A completed run
    ends with its summary line. Each checked chain's report line and its contribution
    to \<open>hasFailed\<close> follow its contract outcomes (\<open>chain_report_line\<close>).
  \<^item> One chain task (Validator), on each branch of lines 190--250:
    \<^item> a chain-id mismatch logs, fails and skips every \<open>getCode\<close>;
    \<^item> \<open>getCode\<close> is sent only to the chain's URL, after the id check;
    \<^item> a missing descriptor is a recovered failure;
    \<^item> a contract without code is logged by name and address;
    \<^item> the chain reports at most once, as its last action.
  \<^item> Error paths of the whole run: a rejected \<open>getChainId\<close> or an empty registry
    crashes it.
  \<^item> Invariant: \<open>hasFailed\<close> is never reset.
  \<^item> Versions: on valid keys the selection picks a maximal version.
  \<^item> Catalog: every custom descriptor resolves. A chain id viem knows resolves to
    viem's descriptor unless the script overwrites it, so a custom descriptor that shares
    its id under a new key is never used.

  The registry's data (the chain ids and tables of src/index.ts) is modelled faithfully
  but carries no theorem of its own: facts about a fixed literal are evaluations, not
  properties. The results above hold for any registry, catalog and RPC answers.

  \<^bold>\<open>Bounds and fuel.\<close> There is no fuel: every function is total by structural
  recursion (\<open>dec_digits\<close> by the \<open>fun\<close> package's measure). Termination of the run
  is not a result: the model assumes that every RPC request settles. Chain ids and contract
  counts are unbounded integers and lists. JavaScript numbers are modelled as \<open>int\<close>,
  which is exact for the integer chain ids below \<open>2^53\<close> that the script handles.

  \<^bold>\<open>Not modelled.\<close>
  \<^item> viem's client: only its answers are modelled, and every request is assumed to
    settle; a hung request stalling the run is outside the model.
  \<^item> viem's chain catalog: a parameter; its actual contents are not in this repository.
  \<^item> The deployment tables of contractAddresses: parameters.
  \<^item> compare-versions: modelled from its documentation for versions of one to four
    numeric segments; the prefixes, wildcards and pre-release and build tags the library
    also accepts are modelled as a throw, so version results assume numeric keys.
  \<^item> Console formatting beyond the exact strings the script builds.
\<close>

end
